theory Spec2Isabelle
  imports Main "HOL-Library.Sublist" "HOL-Library.Multiset"
begin

section \<open>JavaScript strings\<close>

text \<open>
  A JavaScript string is a sequence of UTF-16 code units. The regular expression of
  \<^verbatim>\<open>parsePrompts\<close> has no \<^verbatim>\<open>u\<close> flag, so it works on code units; a code unit is
  modelled as its number. \<open>js\<close> turns a literal of the theory into such a sequence.
\<close>

type_synonym jsstring = "nat list"

definition js :: "string \<Rightarrow> jsstring" where
  "js s = map of_char s"

text \<open>The class \<^verbatim>\<open>\d\<close>: the ten ASCII digits.\<close>

definition is_digit :: "nat \<Rightarrow> bool" where
  "is_digit c = (48 \<le> c \<and> c \<le> 57)"

text \<open>
  The line terminators LF, CR, U+2028 and U+2029: the code units that \<^verbatim>\<open>.\<close> does not
  match (the expression has no \<^verbatim>\<open>s\<close> flag).
\<close>

definition is_line_terminator :: "nat \<Rightarrow> bool" where
  "is_line_terminator c = (c = 10 \<or> c = 13 \<or> c = 8232 \<or> c = 8233)"

text \<open>
  What \<^verbatim>\<open>String.prototype.trim\<close> removes: the white space code points TAB, VT, FF, SP,
  NBSP, U+FEFF and the space separators U+1680, U+2000..U+200A, U+202F, U+205F, U+3000,
  and the line terminators.
\<close>

definition is_white_space :: "nat \<Rightarrow> bool" where
  "is_white_space c =
     (c = 9 \<or> c = 11 \<or> c = 12 \<or> c = 32 \<or> c = 160 \<or> c = 5760 \<or> (8192 \<le> c \<and> c \<le> 8202)
      \<or> c = 8239 \<or> c = 8287 \<or> c = 12288 \<or> c = 65279 \<or> is_line_terminator c)"

definition trim :: "jsstring \<Rightarrow> jsstring" where
  "trim s = rev (dropWhile is_white_space (rev (dropWhile is_white_space s)))"

text \<open>Matching a literal piece of a pattern at the head of the input: what is left, if it matches.\<close>

fun strip_prefix :: "jsstring \<Rightarrow> jsstring \<Rightarrow> jsstring option" where
  "strip_prefix [] s = Some s"
| "strip_prefix (p # ps) [] = None"
| "strip_prefix (p # ps) (c # cs) = (if p = c then strip_prefix ps cs else None)"

text \<open>\<^verbatim>\<open>s.includes(sub)\<close> and \<^verbatim>\<open>s.endsWith(suf)\<close>.\<close>

fun includes_str :: "jsstring \<Rightarrow> jsstring \<Rightarrow> bool" where
  "includes_str [] sub = (sub = [])"
| "includes_str (c # cs) sub = (strip_prefix sub (c # cs) \<noteq> None \<or> includes_str cs sub)"

definition endsWith :: "jsstring \<Rightarrow> jsstring \<Rightarrow> bool" where
  "endsWith s suf = (strip_prefix (rev suf) (rev s) \<noteq> None)"

text \<open>
  \<^verbatim>\<open>s.split(sep)\<close> for a separator of one code unit: the pieces between the separators,
  one piece (the empty string) for the empty string. \<open>cur\<close> is the piece being read.
\<close>

fun split_from :: "nat \<Rightarrow> jsstring \<Rightarrow> jsstring \<Rightarrow> jsstring list" where
  "split_from sep cur [] = [cur]"
| "split_from sep cur (c # cs) =
     (if c = sep then cur # split_from sep [] cs else split_from sep (cur @ [c]) cs)"

definition split_on :: "nat \<Rightarrow> jsstring \<Rightarrow> jsstring list" where
  "split_on sep s = split_from sep [] s"

text \<open>
  \<^verbatim>\<open>a || b\<close> on strings: the empty string is falsy; so is \<^verbatim>\<open>undefined\<close> and
  \<^verbatim>\<open>null\<close> where the left side may be absent.
\<close>

definition or_else :: "jsstring \<Rightarrow> jsstring \<Rightarrow> jsstring" where
  "or_else a b = (if a = [] then b else a)"

definition or_else_opt :: "jsstring option \<Rightarrow> jsstring \<Rightarrow> jsstring" where
  "or_else_opt a b = (case a of None \<Rightarrow> b | Some x \<Rightarrow> or_else x b)"

text \<open>A thrown \<^verbatim>\<open>Error\<close>, with its message.\<close>

datatype js_error = Error (message: jsstring)

section \<open>The prompt parser (App.tsx, parsePrompts)\<close>

record ParsedPrompt =
  prompt_id :: jsstring
  title :: jsstring
  content :: jsstring

text \<open>
  The expression is
  \<^verbatim>\<open>/=== PROMPT (\d+): (.*?) ===([\s\S]*?)(?=(=== PROMPT|\z))/g\<close>.
  Each function below is one piece of it together with everything to its right, so that a
  failure to the right backtracks into the piece, as the backtracking matcher of
  ECMAScript does.

  The look-ahead \<^verbatim>\<open>(?=(=== PROMPT|\z))\<close>: without the \<^verbatim>\<open>u\<close> flag, \<^verbatim>\<open>\z\<close> is an identity
  escape and matches the letter z (ECMAScript has no end-of-input escape of that name).
\<close>

definition lookahead :: "jsstring \<Rightarrow> bool" where
  "lookahead s = (strip_prefix (js ''=== PROMPT'') s \<noteq> None \<or> strip_prefix (js ''z'') s \<noteq> None)"

text \<open>
  \<^verbatim>\<open>([\s\S]*?)\<close> and the look-ahead: lazy, so the shortest content first; \<open>acc\<close> is the
  content taken so far. The result is the content and the input left after the match.
\<close>

fun match_content :: "jsstring \<Rightarrow> jsstring \<Rightarrow> (jsstring \<times> jsstring) option" where
  "match_content acc [] = (if lookahead [] then Some (acc, []) else None)"
| "match_content acc (c # cs) =
     (if lookahead (c # cs) then Some (acc, c # cs) else match_content (acc @ [c]) cs)"

text \<open>\<^verbatim>\<open> ===\<close> and what follows it.\<close>

definition match_close :: "jsstring \<Rightarrow> (jsstring \<times> jsstring) option" where
  "match_close s = (case strip_prefix (js '' ==='') s of None \<Rightarrow> None | Some s1 \<Rightarrow> match_content [] s1)"

text \<open>
  \<^verbatim>\<open>(.*?)\<close> and what follows it: lazy, so the shortest title first, and one more code
  unit (never a line terminator) each time the rest fails.
\<close>

fun match_title :: "jsstring \<Rightarrow> jsstring \<Rightarrow> (jsstring \<times> jsstring \<times> jsstring) option" where
  "match_title acc [] =
     (case match_close [] of Some (body, rest) \<Rightarrow> Some (acc, body, rest) | None \<Rightarrow> None)"
| "match_title acc (c # cs) =
     (case match_close (c # cs) of
        Some (body, rest) \<Rightarrow> Some (acc, body, rest)
      | None \<Rightarrow> if is_line_terminator c then None else match_title (acc @ [c]) cs)"

text \<open>\<^verbatim>\<open>: \<close> and what follows it, once the digits \<open>ds\<close> are taken.\<close>

definition match_colon ::
  "jsstring \<Rightarrow> jsstring \<Rightarrow> (jsstring \<times> jsstring \<times> jsstring \<times> jsstring) option" where
  "match_colon ds s =
     (case strip_prefix (js '': '') s of
        None \<Rightarrow> None
      | Some s1 \<Rightarrow>
          (case match_title [] s1 of
             None \<Rightarrow> None
           | Some (t, body, rest) \<Rightarrow> Some (ds, t, body, rest)))"

text \<open>
  \<^verbatim>\<open>(\d+)\<close> and what follows it: greedy, so one digit at least, more digits first, and
  the rest of the pattern after fewer digits only when that fails.
\<close>

fun match_digits ::
  "jsstring \<Rightarrow> jsstring \<Rightarrow> (jsstring \<times> jsstring \<times> jsstring \<times> jsstring) option" where
  "match_digits acc [] = None"
| "match_digits acc (c # cs) =
     (if is_digit c
      then (case match_digits (acc @ [c]) cs of
              Some r \<Rightarrow> Some r
            | None \<Rightarrow> match_colon (acc @ [c]) cs)
      else None)"

text \<open>
  One attempt of the whole expression at the head of \<open>s\<close>: the groups 1, 2 and 3 and the
  input left after the match.
\<close>

definition match_at :: "jsstring \<Rightarrow> (jsstring \<times> jsstring \<times> jsstring \<times> jsstring) option" where
  "match_at s =
     (case strip_prefix (js ''=== PROMPT '') s of None \<Rightarrow> None | Some s1 \<Rightarrow> match_digits [] s1)"

lemma strip_prefix_length: "strip_prefix p s = Some r \<Longrightarrow> length r + length p = length s"
  by (induction p s rule: strip_prefix.induct) (auto split: if_splits)

lemma match_content_length: "match_content acc s = Some (body, r) \<Longrightarrow> length r \<le> length s"
  by (induction acc s rule: match_content.induct) (auto split: if_splits)

lemma match_close_length: "match_close s = Some (body, r) \<Longrightarrow> length r \<le> length s"
  by (auto simp: match_close_def split: option.splits
      dest!: strip_prefix_length match_content_length)

lemma match_title_length: "match_title acc s = Some (t, body, r) \<Longrightarrow> length r \<le> length s"
  by (induction acc s rule: match_title.induct)
    (auto split: option.splits if_splits dest!: match_close_length)

lemma match_colon_length: "match_colon ds s = Some (d, t, body, r) \<Longrightarrow> length r \<le> length s"
  by (auto simp: match_colon_def split: option.splits
      dest!: strip_prefix_length match_title_length)

lemma match_digits_length: "match_digits acc s = Some (d, t, body, r) \<Longrightarrow> length r \<le> length s"
  by (induction acc s rule: match_digits.induct)
    (auto split: option.splits if_splits dest!: match_colon_length)

lemma match_at_length: "match_at s = Some (d, t, body, r) \<Longrightarrow> length r < length s"
  by (auto simp: match_at_def js_def split: option.splits
      dest!: strip_prefix_length match_digits_length)

text \<open>
  \<^verbatim>\<open>text.matchAll(regex)\<close>: the matches from left to right. A search starts where
  the match before it ended and moves one code unit to the right each time the expression
  does not match there.
\<close>

function matchAll :: "jsstring \<Rightarrow> (jsstring \<times> jsstring \<times> jsstring) list" where
  "matchAll s =
     (case match_at s of
        Some (d, t, body, rest) \<Rightarrow> (d, t, body) # matchAll rest
      | None \<Rightarrow> (case s of [] \<Rightarrow> [] | c # cs \<Rightarrow> matchAll cs))"
  by pat_completeness auto
termination
  by (relation "measure length") (auto dest: match_at_length)

declare matchAll.simps [simp del]

definition parsePrompts :: "jsstring \<Rightarrow> ParsedPrompt list" where
  "parsePrompts text =
     (let matches = matchAll text in
      if length matches = 0
      then [\<lparr>prompt_id = js ''1'', title = js ''Complete Mission'', content = text\<rparr>]
      else map (\<lambda>(d, t, body). \<lparr>prompt_id = d, title = t, content = trim body\<rparr>) matches)"

subsection \<open>The delimiter of the specification\<close>

text \<open>
  The specification speaks of delimiters of the shape
  \<^verbatim>\<open>=== PROMPT <number>: <title> ===\<close>. These three functions say, without the matcher,
  whether an input holds one: \<open>title_closes s\<close> when \<open>s\<close> is a title (code units other than
  line terminators) followed by \<^verbatim>\<open> ===\<close>; \<open>delimiter_at s\<close> when \<open>s\<close> starts with a
  delimiter; \<open>contains_delimiter s\<close> when a delimiter starts somewhere in \<open>s\<close>.
\<close>

fun title_closes :: "jsstring \<Rightarrow> bool" where
  "title_closes [] = False"
| "title_closes (c # cs) =
     (strip_prefix (js '' ==='') (c # cs) \<noteq> None \<or> (\<not> is_line_terminator c \<and> title_closes cs))"

definition delimiter_at :: "jsstring \<Rightarrow> bool" where
  "delimiter_at s =
     (case strip_prefix (js ''=== PROMPT '') s of
        None \<Rightarrow> False
      | Some s1 \<Rightarrow>
          takeWhile is_digit s1 \<noteq> [] \<and>
          (case strip_prefix (js '': '') (dropWhile is_digit s1) of
             None \<Rightarrow> False
           | Some s2 \<Rightarrow> title_closes s2))"

fun contains_delimiter :: "jsstring \<Rightarrow> bool" where
  "contains_delimiter [] = False"
| "contains_delimiter (c # cs) = (delimiter_at (c # cs) \<or> contains_delimiter cs)"

section \<open>The data model (types.ts)\<close>

datatype AgentStatus =
  IDLE | FETCHING_REPO | SCOUT_WORKING | ARCHITECT_WORKING | TASKMASTER_WORKING
  | REFINING | COMPLETED | ERROR

record RepoFile =
  path :: jsstring
  file_content :: jsstring
  file_size :: nat

record ImageRef =
  data :: jsstring
  mimeType :: jsstring

record AgentState =
  status :: AgentStatus
  missionLog :: jsstring
  finalPrompt :: "jsstring option"
  error :: "jsstring option"

definition INITIAL_MISSION_LOG :: jsstring where
  "INITIAL_MISSION_LOG = js
''# MISSION CONTROL\<newline>**Language:** TypeScript (.tsx)\<newline>**Framework:** React 18+ (ESM)\<newline>\<newline>## ENVIRONMENT MANIFESTO (IMMUTABLE LAWS)\<newline>* **SDK:** MUST use `@google/genai` (NOT `@google/generative-ai`).\<newline>* **Styling:** Tailwind via CDN only. NO `.css` files. NO `styled-components`.\<newline>* **Routing:** `HashRouter` only (No history API).\<newline>* **Icons:** `lucide-react` only.\<newline>* **Structure:** Flat root (./). NO `/src` folder. `index.tsx` is entry.\<newline>* **TS Rules:** Use `interface` (not type). Use `enum` (not const enum).\<newline>''"

section \<open>The repository fetcher (services/githubService.ts)\<close>

definition GITHUB_API_BASE :: jsstring where
  "GITHUB_API_BASE = js ''https://api.github.com/repos''"

text \<open>\<^verbatim>\<open>url.replace(/\/$/, '')\<close>: one slash at the very end of the string is removed.\<close>

definition remove_trailing_slash :: "jsstring \<Rightarrow> jsstring" where
  "remove_trailing_slash url = (if url \<noteq> [] \<and> last url = 47 then butlast url else url)"

record RepoInfo =
  owner :: jsstring
  repo :: jsstring

text \<open>
  The \<^verbatim>\<open>try\<close> of the source catches nothing: \<^verbatim>\<open>replace\<close> and \<^verbatim>\<open>split\<close> do
  not throw on a string.
\<close>

definition parseRepoUrl :: "jsstring \<Rightarrow> RepoInfo option" where
  "parseRepoUrl url =
     (let cleanUrl = remove_trailing_slash url;
          parts = split_on 47 cleanUrl
      in if length parts < 2 then None
         else Some \<lparr>owner = parts ! (length parts - 2), repo = parts ! (length parts - 1)\<rparr>)"

datatype TreeItemType = Blob | Tree

record GitHubTreeItem =
  item_path :: jsstring
  mode :: jsstring
  item_type :: TreeItemType
  sha :: jsstring
  item_size :: "nat option"
  url :: jsstring

text \<open>
  The JSON of the tree listing, as far as the source reads it (\<^verbatim>\<open>data.tree\<close> and
  \<^verbatim>\<open>data.url\<close>), and the response of a \<^verbatim>\<open>fetch\<close>: \<^verbatim>\<open>json()\<close> and \<^verbatim>\<open>text()\<close> may
  reject. The network is a function from the URL asked for to a rejection or a response.
\<close>

record TreeData =
  tree :: "GitHubTreeItem list"
  data_url :: jsstring

record Response =
  ok :: bool
  http_status :: nat
  statusText :: jsstring
  json :: "js_error + TreeData"
  body_text :: "js_error + jsstring"

type_synonym network = "jsstring \<Rightarrow> js_error + Response"

definition codeExtensions :: "jsstring list" where
  "codeExtensions = map js
     [''.ts'', ''.tsx'', ''.js'', ''.jsx'', ''.py'', ''.rb'', ''.go'', ''.rs'', ''.java'', ''.c'',
      ''.cpp'', ''.h'', ''.css'', ''.html'', ''.json'', ''.md'']"

definition isCode :: "jsstring \<Rightarrow> bool" where
  "isCode p = list_ex (\<lambda>ext. endsWith p ext) codeExtensions"

definition isLock :: "jsstring \<Rightarrow> bool" where
  "isLock p =
     (includes_str p (js ''lock'') \<or> includes_str p (js ''node_modules'') \<or> includes_str p (js ''dist/'')
      \<or> includes_str p (js ''build/''))"

definition relevantFiles :: "GitHubTreeItem list \<Rightarrow> GitHubTreeItem list" where
  "relevantFiles tr =
     filter (\<lambda>item. if item_type item \<noteq> Blob then False
                     else isCode (item_path item) \<and> \<not> isLock (item_path item)) tr"

text \<open>The comparator handed to \<^verbatim>\<open>sort\<close>.\<close>

definition compareFiles :: "GitHubTreeItem \<Rightarrow> GitHubTreeItem \<Rightarrow> int" where
  "compareFiles a b =
     (if endsWith (item_path a) (js ''package.json'') then - 1
      else if endsWith (item_path b) (js ''package.json'') then 1
      else
        let aDepth = length (split_on 47 (item_path a));
            bDepth = length (split_on 47 (item_path b))
        in int aDepth - int bDepth)"

text \<open>
  \<^verbatim>\<open>Array.prototype.sort\<close> belongs to the engine. It returns the elements it was given
  in some order; ECMAScript fixes that order only for a consistent comparator, and
  \<open>compareFiles\<close> is not one: it answers \<open>- 1\<close> both ways for two paths that end in
  \<^verbatim>\<open>package.json\<close>, and for such a path against itself. So the order is the engine's,
  and the sort is a parameter of the fetcher.
\<close>

type_synonym sorter =
  "(GitHubTreeItem \<Rightarrow> GitHubTreeItem \<Rightarrow> int) \<Rightarrow> GitHubTreeItem list \<Rightarrow> GitHubTreeItem list"

text \<open>
  What a property below may ask of the sort: \<open>sort_permutes\<close>, that the result holds the
  elements of the input, each as often as the input does; \<open>sort_respects\<close>, that no
  element \<open>a\<close> stands before an element \<open>b\<close> when both answers of the comparator,
  \<open>cmp b a\<close> and \<open>cmp a b\<close>, put \<open>b\<close> first.
\<close>

definition sort_permutes :: "sorter \<Rightarrow> bool" where
  "sort_permutes srt = (\<forall>cmp xs. mset (srt cmp xs) = mset xs)"

definition sort_respects :: "sorter \<Rightarrow> (GitHubTreeItem \<Rightarrow> GitHubTreeItem \<Rightarrow> int) \<Rightarrow> bool" where
  "sort_respects srt cmp =
     (\<forall>xs. sorted_wrt (\<lambda>a b. \<not> (cmp b a < 0 \<and> 0 < cmp a b)) (srt cmp xs))"

definition limitedFiles :: "sorter \<Rightarrow> GitHubTreeItem list \<Rightarrow> GitHubTreeItem list" where
  "limitedFiles srt tr = take 20 (srt compareFiles (relevantFiles tr))"

definition rawUrl :: "RepoInfo \<Rightarrow> jsstring \<Rightarrow> GitHubTreeItem \<Rightarrow> jsstring" where
  "rawUrl info branch file =
     js ''https://raw.githubusercontent.com/'' @ owner info @ js ''/'' @ repo info @ js ''/''
       @ branch @ js ''/'' @ item_path file"

text \<open>
  The body of the \<^verbatim>\<open>map\<close> over \<open>limitedFiles\<close>: \<^verbatim>\<open>null\<close> (here \<open>None\<close>) for a file
  whose fetch rejects, is not ok, or whose text cannot be read.
\<close>

definition fetchFile :: "network \<Rightarrow> RepoInfo \<Rightarrow> jsstring \<Rightarrow> GitHubTreeItem \<Rightarrow> RepoFile option" where
  "fetchFile net info branch file =
     (case net (rawUrl info branch file) of
        Inl e \<Rightarrow> None
      | Inr fileRes \<Rightarrow>
          if \<not> ok fileRes then None
          else (case body_text fileRes of
                  Inl e \<Rightarrow> None
                | Inr txt \<Rightarrow>
                    Some \<lparr>path = item_path file, file_content = txt,
                          file_size = (case item_size file of
                                         None \<Rightarrow> length txt
                                       | Some n \<Rightarrow> if n = 0 then length txt else n)\<rparr>))"

text \<open>
  What follows the tree request: \<open>reqs\<close> are the URLs asked for so far. The result is the
  list of all URLs asked for, in the order of the calls, and what the function returns or
  throws.
\<close>

definition fetchAfterTree ::
  "sorter \<Rightarrow> network \<Rightarrow> RepoInfo \<Rightarrow> jsstring list \<Rightarrow> Response \<Rightarrow> jsstring list \<times> (js_error + RepoFile list)" where
  "fetchAfterTree srt net info reqs response =
     (if \<not> ok response
      then (reqs, Inl (Error (js ''Failed to fetch repo tree: '' @ statusText response
                                @ js ''. Ensure repo is public.'')))
      else (case json response of
              Inl e \<Rightarrow> (reqs, Inl e)
            | Inr d \<Rightarrow>
                let branch = (if includes_str (data_url d) (js ''master'') then js ''master'' else js ''main'');
                    results = map (fetchFile net info branch) (limitedFiles srt (tree d))
                in (reqs @ map (rawUrl info branch) (limitedFiles srt (tree d)),
                    Inr (map the (filter (\<lambda>f. f \<noteq> None) results)))))"

definition fetchRepoContents ::
  "sorter \<Rightarrow> network \<Rightarrow> jsstring \<Rightarrow> jsstring list \<times> (js_error + RepoFile list)" where
  "fetchRepoContents srt net repoUrl =
     (case parseRepoUrl repoUrl of
        None \<Rightarrow> ([], Inl (Error (js ''Invalid GitHub URL format. Use https://github.com/owner/repo'')))
      | Some info \<Rightarrow>
          let treeUrl = GITHUB_API_BASE @ js ''/'' @ owner info @ js ''/'' @ repo info
                          @ js ''/git/trees/main?recursive=1''
          in (case net treeUrl of
                Inl e \<Rightarrow> ([treeUrl], Inl e)
              | Inr response \<Rightarrow>
                  if \<not> ok response \<and> http_status response = 404
                  then
                    let masterUrl = GITHUB_API_BASE @ js ''/'' @ owner info @ js ''/'' @ repo info
                                      @ js ''/git/trees/master?recursive=1''
                    in (case net masterUrl of
                          Inl e \<Rightarrow> ([treeUrl, masterUrl], Inl e)
                        | Inr response2 \<Rightarrow> fetchAfterTree srt net info [treeUrl, masterUrl] response2)
                  else fetchAfterTree srt net info [treeUrl] response))"

section \<open>The four agents (services/geminiService.ts)\<close>

text \<open>\<^verbatim>\<open>pieces.join(sep)\<close>.\<close>

fun join :: "jsstring \<Rightarrow> jsstring list \<Rightarrow> jsstring" where
  "join sep [] = []"
| "join sep [x] = x"
| "join sep (x # y # ys) = x @ sep @ join sep (y # ys)"

definition formatRepoForPrompt :: "RepoFile list \<Rightarrow> jsstring" where
  "formatRepoForPrompt files =
     join (js ''\<newline>'')
       (map (\<lambda>f. js ''\<newline>--- START FILE: '' @ path f @ js '' ---\<newline>'' @ file_content f
                  @ js ''\<newline>--- END FILE: '' @ path f @ js '' ---\<newline>'') files)"

text \<open>
  One call of \<^verbatim>\<open>ai.models.generateContent\<close>. The model name, the system instruction and
  the temperature are constants of each call site: \<open>agent\<close> stands for them. The model
  is a function from the request to a rejection or to the \<^verbatim>\<open>text\<close> of the response,
  which may be absent.
\<close>

datatype Agent = Scout | Architect | Taskmaster | Refiner

record GenerateRequest =
  agent :: Agent
  prompt :: jsstring
  inlineData :: "ImageRef list"

type_synonym model = "GenerateRequest \<Rightarrow> js_error + jsstring option"

definition runScoutAgent ::
  "model \<Rightarrow> jsstring \<Rightarrow> jsstring \<Rightarrow> RepoFile list \<Rightarrow> ImageRef list \<Rightarrow> js_error + jsstring" where
  "runScoutAgent ai objective errorFeedback files images =
     (let fileContext = formatRepoForPrompt files;
          textPrompt =
            js ''\<newline>  MISSION OBJECTIVE:\<newline>  '' @ objective
            @ js ''\<newline>\<newline>  ERROR FEEDBACK (Issues to fix):\<newline>  '' @ or_else errorFeedback (js ''None'')
            @ js ''\<newline>  \<newline>  REPOSITORY CONTENT:\<newline>  '' @ fileContext @ js ''\<newline>  ''
      in case ai \<lparr>agent = Scout, prompt = textPrompt, inlineData = images\<rparr> of
           Inr response_text \<Rightarrow> Inr (or_else_opt response_text (js ''Error generating Scout response.''))
         | Inl e \<Rightarrow> Inl (Error (js ''Scout Agent failed to analyze repository.'')))"

definition runArchitectAgent ::
  "model \<Rightarrow> jsstring \<Rightarrow> jsstring \<Rightarrow> jsstring \<Rightarrow> ImageRef list \<Rightarrow> js_error + jsstring" where
  "runArchitectAgent ai currentMissionLog objective errorFeedback images =
     (let textPrompt =
            js ''\<newline>  ORIGINAL OBJECTIVE:\<newline>  '' @ objective
            @ js ''\<newline>\<newline>  ERROR FEEDBACK:\<newline>  '' @ or_else errorFeedback (js ''None'')
            @ js ''\<newline>\<newline>  CURRENT MISSION LOG:\<newline>  '' @ currentMissionLog @ js ''\<newline>  ''
      in case ai \<lparr>agent = Architect, prompt = textPrompt, inlineData = images\<rparr> of
           Inr response_text \<Rightarrow> Inr (or_else_opt response_text (js ''Error generating Architect response.''))
         | Inl e \<Rightarrow> Inl (Error (js ''Architect Agent failed to plan.'')))"

definition runTaskmasterAgent :: "model \<Rightarrow> jsstring \<Rightarrow> RepoFile list \<Rightarrow> js_error + jsstring" where
  "runTaskmasterAgent ai fullMissionLog files =
     (let fileContext = formatRepoForPrompt files;
          prompt_text =
            js ''\<newline>  FULL MISSION LOG:\<newline>  '' @ fullMissionLog
            @ js ''\<newline>  \<newline>  REPOSITORY CONTENT (Reference for file contents):\<newline>  '' @ fileContext
            @ js ''\<newline>  ''
      in case ai \<lparr>agent = Taskmaster, prompt = prompt_text, inlineData = []\<rparr> of
           Inr response_text \<Rightarrow> Inr (or_else_opt response_text (js ''Error generating Taskmaster response.''))
         | Inl e \<Rightarrow> Inl (Error (js ''Taskmaster Agent failed to synthesize prompt.'')))"

definition refinerPrompt :: "jsstring \<Rightarrow> jsstring \<Rightarrow> jsstring \<Rightarrow> RepoFile list \<Rightarrow> jsstring" where
  "refinerPrompt currentPrompts feedback fullMissionLog files =
     js ''\<newline>  CONTEXT - MISSION LOG:\<newline>  '' @ fullMissionLog
     @ js ''\<newline>\<newline>  CONTEXT - REPO FILES:\<newline>  '' @ formatRepoForPrompt files
     @ js ''\<newline>\<newline>  === CURRENT PROMPTS (To be fixed) ===\<newline>  '' @ currentPrompts
     @ js ''\<newline>\<newline>  === USER FEEDBACK / ERROR REPORT ===\<newline>  '' @ feedback @ js ''\<newline>  ''"

definition runRefinerAgent ::
  "model \<Rightarrow> jsstring \<Rightarrow> jsstring \<Rightarrow> jsstring \<Rightarrow> RepoFile list \<Rightarrow> js_error + jsstring" where
  "runRefinerAgent ai currentPrompts feedback fullMissionLog files =
     (case ai \<lparr>agent = Refiner,
                prompt = refinerPrompt currentPrompts feedback fullMissionLog files,
                inlineData = []\<rparr> of
        Inr response_text \<Rightarrow> Inr (or_else_opt response_text (js ''Error generating Refiner response.''))
      | Inl e \<Rightarrow> Inl (Error (js ''Refiner Agent failed to fix instructions.'')))"

section \<open>The pipeline controller (App.tsx)\<close>

text \<open>
  The state of the component: the five inputs, the agent state, and the file list kept in
  \<^verbatim>\<open>repoFilesRef\<close>. The world outside is the engine's sort, the network and the model.
\<close>

record App =
  repoUrl :: jsstring
  objective :: jsstring
  errorFeedback :: jsstring
  referenceImages :: "ImageRef list"
  refinementInput :: jsstring
  state :: AgentState
  repoFilesRef :: "RepoFile list"

record World =
  world_sort :: sorter
  world_net :: network
  world_ai :: model

text \<open>
  What a run does, in the order it does it: each \<^verbatim>\<open>setState\<close> with the agent state it
  leaves, each call of the fetcher (followed by the URLs it asks the network for) and each
  call of an agent with its arguments.
\<close>

datatype event =
  SetState AgentState
  | FetchCall jsstring
  | NetRequest jsstring
  | ScoutCall jsstring jsstring "RepoFile list" "ImageRef list"
  | ArchitectCall jsstring jsstring jsstring "ImageRef list"
  | TaskmasterCall jsstring "RepoFile list"
  | RefinerCall jsstring jsstring jsstring "RepoFile list"

definition setState :: "(AgentState \<Rightarrow> AgentState) \<Rightarrow> App \<times> event list \<Rightarrow> App \<times> event list" where
  "setState f r = (case r of (app, tr) \<Rightarrow> (app\<lparr>state := f (state app)\<rparr>, tr @ [SetState (f (state app))]))"

definition called :: "event list \<Rightarrow> App \<times> event list \<Rightarrow> App \<times> event list" where
  "called es r = (case r of (app, tr) \<Rightarrow> (app, tr @ es))"

text \<open>The \<^verbatim>\<open>catch\<close> of \<^verbatim>\<open>executePipeline\<close>.\<close>

definition pipelineCatch :: "js_error \<Rightarrow> App \<times> event list \<Rightarrow> App \<times> event list" where
  "pipelineCatch err r =
     setState (\<lambda>prev. prev\<lparr>status := ERROR,
                             error := Some (or_else (message err)
                                             (js ''An unexpected error occurred in the pipeline.''))\<rparr>) r"

definition executePipeline :: "World \<Rightarrow> App \<Rightarrow> App \<times> event list" where
  "executePipeline w app =
     (if repoUrl app = [] \<or> objective app = [] then (app, [])
      else
        let r0 = setState (\<lambda>prev. prev\<lparr>status := FETCHING_REPO, error := None,
                                         missionLog := INITIAL_MISSION_LOG, finalPrompt := None\<rparr>)
                   (app, []);
            fetched = fetchRepoContents (world_sort w) (world_net w) (repoUrl app);
            r1 = called (FetchCall (repoUrl app) # map NetRequest (fst fetched)) r0
        in case snd fetched of
             Inl err \<Rightarrow> pipelineCatch err r1
           | Inr files \<Rightarrow>
               let r2 = (case r1 of (a, tr) \<Rightarrow> (a\<lparr>repoFilesRef := files\<rparr>, tr));
                   r3 = setState (\<lambda>prev. prev\<lparr>status := SCOUT_WORKING\<rparr>) r2;
                   r4 = called [ScoutCall (objective app) (errorFeedback app) files (referenceImages app)] r3
               in case runScoutAgent (world_ai w) (objective app) (errorFeedback app) files
                         (referenceImages app) of
                    Inl err \<Rightarrow> pipelineCatch err r4
                  | Inr scoutLog \<Rightarrow>
                      let r5 = setState (\<lambda>prev. prev\<lparr>missionLog := scoutLog\<rparr>) r4;
                          r6 = setState (\<lambda>prev. prev\<lparr>status := ARCHITECT_WORKING\<rparr>) r5;
                          r7 = called [ArchitectCall scoutLog (objective app) (errorFeedback app)
                                         (referenceImages app)] r6
                      in case runArchitectAgent (world_ai w) scoutLog (objective app)
                                (errorFeedback app) (referenceImages app) of
                           Inl err \<Rightarrow> pipelineCatch err r7
                         | Inr architectLog \<Rightarrow>
                             let r8 = setState (\<lambda>prev. prev\<lparr>missionLog := architectLog\<rparr>) r7;
                                 r9 = setState (\<lambda>prev. prev\<lparr>status := TASKMASTER_WORKING\<rparr>) r8;
                                 r10 = called [TaskmasterCall architectLog files] r9
                             in case runTaskmasterAgent (world_ai w) architectLog files of
                                  Inl err \<Rightarrow> pipelineCatch err r10
                                | Inr final \<Rightarrow>
                                    setState (\<lambda>prev. prev\<lparr>status := COMPLETED,
                                                             finalPrompt := Some final\<rparr>) r10)"

text \<open>
  \<^verbatim>\<open>!state.finalPrompt\<close> holds for \<^verbatim>\<open>null\<close> and for the empty string. The arguments
  of the Refiner are read from the state the handler was created with, which is the state
  at the call.
\<close>

definition executeRefinement :: "World \<Rightarrow> App \<Rightarrow> App \<times> event list" where
  "executeRefinement w app =
     (case finalPrompt (state app) of
        None \<Rightarrow> (app, [])
      | Some current \<Rightarrow>
          if refinementInput app = [] \<or> current = [] then (app, [])
          else
            let r0 = setState (\<lambda>prev. prev\<lparr>status := REFINING, error := None\<rparr>) (app, []);
                r1 = called [RefinerCall current (refinementInput app) (missionLog (state app))
                               (repoFilesRef app)] r0
            in case runRefinerAgent (world_ai w) current (refinementInput app)
                      (missionLog (state app)) (repoFilesRef app) of
                 Inr updatedPrompts \<Rightarrow>
                   (case setState (\<lambda>prev. prev\<lparr>status := COMPLETED,
                                                  finalPrompt := Some updatedPrompts\<rparr>) r1 of
                      (a, tr) \<Rightarrow> (a\<lparr>refinementInput := []\<rparr>, tr))
               | Inl err \<Rightarrow>
                   setState (\<lambda>prev. prev\<lparr>status := ERROR,
                                           error := Some (or_else (message err)
                                                           (js ''Failed to refine instructions.''))\<rparr>) r1)"

section \<open>A concrete sort, repositories, network and model\<close>

text \<open>
  One sort that permutes and respects \<open>compareFiles\<close>: a stable insertion sort, in which an
  element goes before the first element that the comparator does not put before it.
\<close>

fun insert_by :: "('a \<Rightarrow> 'a \<Rightarrow> int) \<Rightarrow> 'a \<Rightarrow> 'a list \<Rightarrow> 'a list" where
  "insert_by cmp x [] = [x]"
| "insert_by cmp x (y # ys) = (if cmp x y \<le> 0 then x # y # ys else y # insert_by cmp x ys)"

definition insertion_sort :: "('a \<Rightarrow> 'a \<Rightarrow> int) \<Rightarrow> 'a list \<Rightarrow> 'a list" where
  "insertion_sort cmp xs = foldr (insert_by cmp) xs []"

text \<open>
  A small repository \<^verbatim>\<open>octo/demo\<close> on the \<^verbatim>\<open>main\<close> branch: seven tree entries, of which
  three pass the filter; the raw file \<^verbatim>\<open>README.md\<close> is not served. The theorems below are
  run on it.
\<close>

definition demo_item :: "string \<Rightarrow> TreeItemType \<Rightarrow> nat option \<Rightarrow> GitHubTreeItem" where
  "demo_item p ty sz =
     \<lparr>item_path = js p, mode = js ''100644'', item_type = ty, sha = js ''0a1b'', item_size = sz,
      url = js ''https://api.github.com/repos/octo/demo/git/blobs/0a1b''\<rparr>"

definition demo_tree :: "GitHubTreeItem list" where
  "demo_tree =
     [demo_item ''src/App.tsx'' Blob (Some 2048),
      demo_item ''README.md'' Blob (Some 300),
      demo_item ''package-lock.json'' Blob (Some 90000),
      demo_item ''assets'' Tree None,
      demo_item ''logo.png'' Blob (Some 5120),
      demo_item ''dist/main.js'' Blob (Some 700),
      demo_item ''package.json'' Blob None]"

definition demo_response :: "bool \<Rightarrow> nat \<Rightarrow> string \<Rightarrow> js_error + TreeData \<Rightarrow> js_error + jsstring \<Rightarrow> Response" where
  "demo_response k st stt j b = \<lparr>ok = k, http_status = st, statusText = js stt, json = j, body_text = b\<rparr>"

definition not_json :: "js_error" where
  "not_json = Error (js ''Unexpected token'')"

definition demo_net :: network where
  "demo_net u =
     (if u = js ''https://api.github.com/repos/octo/demo/git/trees/main?recursive=1''
      then Inr (demo_response True 200 ''OK''
                  (Inr \<lparr>tree = demo_tree,
                         data_url = js ''https://api.github.com/repos/octo/demo/git/trees/main''\<rparr>)
                  (Inr []))
      else if u = js ''https://raw.githubusercontent.com/octo/demo/main/package.json''
      then Inr (demo_response True 200 ''OK'' (Inl not_json) (Inr (js ''{}'')))
      else if u = js ''https://raw.githubusercontent.com/octo/demo/main/src/App.tsx''
      then Inr (demo_response True 200 ''OK'' (Inl not_json) (Inr (js ''export default App'')))
      else Inr (demo_response False 404 ''Not Found'' (Inl not_json) (Inr (js ''404''))))"

text \<open>What the fetcher returns on this network, and the URLs it asks for, in order.\<close>

definition demo_files :: "RepoFile list" where
  "demo_files =
     [\<lparr>path = js ''package.json'', file_content = js ''{}'', file_size = 2\<rparr>,
      \<lparr>path = js ''src/App.tsx'', file_content = js ''export default App'', file_size = 2048\<rparr>]"

definition demo_requests :: "jsstring list" where
  "demo_requests = map js
     [''https://api.github.com/repos/octo/demo/git/trees/main?recursive=1'',
      ''https://raw.githubusercontent.com/octo/demo/main/package.json'',
      ''https://raw.githubusercontent.com/octo/demo/main/README.md'',
      ''https://raw.githubusercontent.com/octo/demo/main/src/App.tsx'']"

text \<open>A network on which every request is answered with 404.\<close>

definition not_found_net :: network where
  "not_found_net u =
     Inr \<lparr>ok = False, http_status = 404, statusText = js ''Not Found'',
          json = Inl (Error (js ''Unexpected token'')), body_text = Inr (js ''Not Found'')\<rparr>"

text \<open>
  A repository \<^verbatim>\<open>octo/deep\<close> with two files: \<^verbatim>\<open>index.ts\<close> at the root, and
  \<^verbatim>\<open>docs/x/y/z/mypackage.json\<close>, five segments deep, which is no \<^verbatim>\<open>package.json\<close>
  but ends in these letters.
\<close>

definition deep_tree :: "GitHubTreeItem list" where
  "deep_tree =
     [demo_item ''index.ts'' Blob (Some 40),
      demo_item ''docs/x/y/z/mypackage.json'' Blob (Some 20)]"

definition deep_net :: network where
  "deep_net u =
     (if u = js ''https://api.github.com/repos/octo/deep/git/trees/main?recursive=1''
      then Inr (demo_response True 200 ''OK''
                  (Inr \<lparr>tree = deep_tree,
                         data_url = js ''https://api.github.com/repos/octo/deep/git/trees/main''\<rparr>)
                  (Inr []))
      else if u = js ''https://raw.githubusercontent.com/octo/deep/main/index.ts''
      then Inr (demo_response True 200 ''OK'' (Inl not_json) (Inr (js ''export {}'')))
      else if u = js ''https://raw.githubusercontent.com/octo/deep/main/docs/x/y/z/mypackage.json''
      then Inr (demo_response True 200 ''OK'' (Inl not_json) (Inr (js ''{}'')))
      else Inr (demo_response False 404 ''Not Found'' (Inl not_json) (Inr (js ''404''))))"

definition deep_requests :: "jsstring list" where
  "deep_requests = map js
     [''https://api.github.com/repos/octo/deep/git/trees/main?recursive=1'',
      ''https://raw.githubusercontent.com/octo/deep/main/docs/x/y/z/mypackage.json'',
      ''https://raw.githubusercontent.com/octo/deep/main/index.ts'']"

definition deep_files :: "RepoFile list" where
  "deep_files =
     [\<lparr>path = js ''docs/x/y/z/mypackage.json'', file_content = js ''{}'', file_size = 20\<rparr>,
      \<lparr>path = js ''index.ts'', file_content = js ''export {}'', file_size = 40\<rparr>]"

text \<open>
  A model with a fixed answer for each agent, the same model with one agent that rejects,
  a world whose network rejects every request, and two states of the component: before
  the first run, and after a completed run with feedback typed in.
\<close>

definition demo_ai :: model where
  "demo_ai req =
     (case agent req of
        Scout \<Rightarrow> Inr (Some (js ''scout log''))
      | Architect \<Rightarrow> Inr (Some (js ''plan''))
      | Taskmaster \<Rightarrow> Inr (Some (js ''=== PROMPT 1: Setup ===\<newline>Do X''))
      | Refiner \<Rightarrow> Inr (Some (js ''=== PROMPT 1: Setup ===\<newline>Do X and Y'')))"

definition failing_ai :: "Agent \<Rightarrow> model" where
  "failing_ai a req = (if agent req = a then Inl (Error (js ''503'')) else demo_ai req)"

definition demo_world :: World where
  "demo_world = \<lparr>world_sort = insertion_sort, world_net = demo_net, world_ai = demo_ai\<rparr>"

definition failing_world :: "Agent \<Rightarrow> World" where
  "failing_world a = \<lparr>world_sort = insertion_sort, world_net = demo_net, world_ai = failing_ai a\<rparr>"

definition offline_world :: World where
  "offline_world =
     \<lparr>world_sort = insertion_sort, world_net = (\<lambda>u. Inl (Error (js ''Failed to fetch''))),
      world_ai = demo_ai\<rparr>"

definition demo_app :: App where
  "demo_app =
     \<lparr>repoUrl = js ''https://github.com/octo/demo/'', objective = js ''Add a dark mode'',
      errorFeedback = [], referenceImages = [], refinementInput = [],
      state = \<lparr>status = IDLE, missionLog = INITIAL_MISSION_LOG, finalPrompt = None, error = None\<rparr>,
      repoFilesRef = []\<rparr>"

definition completed_app :: App where
  "completed_app =
     \<lparr>repoUrl = js ''https://github.com/octo/demo/'', objective = js ''Add a dark mode'',
      errorFeedback = [], referenceImages = [], refinementInput = js ''Also do Y'',
      state = \<lparr>status = COMPLETED, missionLog = js ''plan'',
               finalPrompt = Some (js ''=== PROMPT 1: Setup ===\<newline>Do X''), error = None\<rparr>,
      repoFilesRef = demo_files\<rparr>"

section \<open>Properties of the prompt parser\<close>

subsection \<open>A match starts with a delimiter\<close>

lemma match_close_prefix: "match_close s = Some r \<Longrightarrow> strip_prefix (js '' ==='') s \<noteq> None"
  by (auto simp: match_close_def split: option.splits)

lemma match_close_Nil: "match_close [] = None"
  by (simp add: match_close_def js_def)

lemma match_title_closes: "match_title acc s = Some r \<Longrightarrow> title_closes s"
  by (induction acc s rule: match_title.induct)
    (auto simp: match_close_Nil split: option.splits if_splits dest: match_close_prefix)

lemma strip_colon_not_digit:
  "strip_prefix (js '': '') s = Some r \<Longrightarrow> dropWhile is_digit s = s \<and> takeWhile is_digit s = []"
  by (cases s) (auto simp: js_def is_digit_def split: if_splits)

lemma match_colon_shape:
  "match_colon ds s = Some r \<Longrightarrow>
     dropWhile is_digit s = s \<and> (\<exists>s2. strip_prefix (js '': '') s = Some s2 \<and> title_closes s2)"
  by (auto simp: match_colon_def split: option.splits
      dest: strip_colon_not_digit match_title_closes)

lemma match_digits_shape:
  "match_digits acc s = Some r \<Longrightarrow>
     takeWhile is_digit s \<noteq> [] \<and>
     (\<exists>s2. strip_prefix (js '': '') (dropWhile is_digit s) = Some s2 \<and> title_closes s2)"
proof (induction acc s rule: match_digits.induct)
  case (1 acc)
  then show ?case by simp
next
  case (2 acc c cs)
  from "2.prems" have d: "is_digit c" by (simp split: if_splits)
  show ?case
  proof (cases "match_digits (acc @ [c]) cs")
    case None
    with "2.prems" d have "match_colon (acc @ [c]) cs = Some r" by simp
    from match_colon_shape [OF this] d show ?thesis by simp
  next
    case (Some a)
    with "2.prems" d have "match_digits (acc @ [c]) cs = Some r" by simp
    from "2.IH" [OF d this] d show ?thesis by simp
  qed
qed

lemma match_at_delimiter: "match_at s = Some r \<Longrightarrow> delimiter_at s"
  by (auto simp: match_at_def delimiter_at_def split: option.splits dest: match_digits_shape)

lemma delimiter_at_Nil: "\<not> delimiter_at []"
  by (simp add: delimiter_at_def js_def)

lemma matchAll_no_delimiter: "\<not> contains_delimiter s \<Longrightarrow> matchAll s = []"
proof (induction s)
  case Nil
  have "match_at [] = None" using match_at_delimiter [of "[]"] delimiter_at_Nil by (cases "match_at []") auto
  then show ?case by (simp add: matchAll.simps [of "[]"])
next
  case (Cons c cs)
  then have "match_at (c # cs) = None" using match_at_delimiter [of "c # cs"] by (cases "match_at (c # cs)") auto
  with Cons show ?case by (simp add: matchAll.simps [of "c # cs"])
qed


subsection \<open>The delimiter predicates say what the specification says\<close>

lemma strip_prefix_iff: "strip_prefix p s = Some r \<longleftrightarrow> s = p @ r"
  by (induction p s rule: strip_prefix.induct) auto

lemma strip_prefix_append: "strip_prefix p (p @ r) = Some r"
  by (simp add: strip_prefix_iff)

lemma title_closes_shape:
  "title_closes s \<longleftrightarrow>
     (\<exists>t post. s = t @ js '' ==='' @ post \<and> (\<forall>c \<in> set t. \<not> is_line_terminator c))"
proof
  show "title_closes s \<Longrightarrow> \<exists>t post. s = t @ js '' ==='' @ post \<and> (\<forall>c \<in> set t. \<not> is_line_terminator c)"
  proof (induction s)
    case Nil
    then show ?case by simp
  next
    case (Cons c cs)
    show ?case
    proof (cases "strip_prefix (js '' ==='') (c # cs)")
      case (Some post)
      then have "c # cs = [] @ js '' ==='' @ post" by (simp add: strip_prefix_iff)
      then show ?thesis by (metis empty_iff list.set(1))
    next
      case None
      with Cons.prems have nl: "\<not> is_line_terminator c" and "title_closes cs" by simp_all
      from Cons.IH [OF this(2)] obtain t post where
        "cs = t @ js '' ==='' @ post" "\<forall>c \<in> set t. \<not> is_line_terminator c" by blast
      with nl have "c # cs = (c # t) @ js '' ==='' @ post \<and> (\<forall>x \<in> set (c # t). \<not> is_line_terminator x)"
        by simp
      then show ?thesis by blast
    qed
  qed
next
  assume "\<exists>t post. s = t @ js '' ==='' @ post \<and> (\<forall>c \<in> set t. \<not> is_line_terminator c)"
  then obtain t post where s: "s = t @ js '' ==='' @ post" and t: "\<forall>c \<in> set t. \<not> is_line_terminator c"
    by blast
  from t show "title_closes s" unfolding s
  proof (induction t)
    case Nil
    have "js '' ==='' @ post = 32 # (js ''==='' @ post)" by (simp add: js_def)
    moreover have "strip_prefix (js '' ==='') (js '' ==='' @ post) = Some post"
      by (rule strip_prefix_append)
    ultimately show ?case by (metis append_Nil option.distinct(1) title_closes.simps(2))
  next
    case (Cons c t)
    then show ?case by simp
  qed
qed

lemma takeWhile_digits:
  "\<forall>c \<in> set n. is_digit c \<Longrightarrow> takeWhile is_digit (n @ js '': '' @ r) = n"
  by (induction n) (auto simp: js_def is_digit_def)

lemma dropWhile_digits:
  "\<forall>c \<in> set n. is_digit c \<Longrightarrow> dropWhile is_digit (n @ js '': '' @ r) = js '': '' @ r"
  by (induction n) (auto simp: js_def is_digit_def)

lemma delimiter_at_shape:
  "delimiter_at s \<longleftrightarrow>
     (\<exists>n t post. s = js ''=== PROMPT '' @ n @ js '': '' @ t @ js '' ==='' @ post \<and>
        n \<noteq> [] \<and> (\<forall>c \<in> set n. is_digit c) \<and> (\<forall>c \<in> set t. \<not> is_line_terminator c))"
proof
  assume "delimiter_at s"
  then obtain s1 s2 where s1: "s = js ''=== PROMPT '' @ s1"
    and n: "takeWhile is_digit s1 \<noteq> []"
    and s2: "dropWhile is_digit s1 = js '': '' @ s2" and tc: "title_closes s2"
    by (auto simp: delimiter_at_def strip_prefix_iff split: option.splits)
  from tc obtain t post where t: "s2 = t @ js '' ==='' @ post" "\<forall>c \<in> set t. \<not> is_line_terminator c"
    unfolding title_closes_shape by blast
  have "s1 = takeWhile is_digit s1 @ dropWhile is_digit s1" by simp
  with s1 s2 t have "s = js ''=== PROMPT '' @ takeWhile is_digit s1 @ js '': '' @ t @ js '' ==='' @ post"
    by simp
  moreover have "\<forall>c \<in> set (takeWhile is_digit s1). is_digit c"
    by (auto dest: set_takeWhileD)
  ultimately show "\<exists>n t post. s = js ''=== PROMPT '' @ n @ js '': '' @ t @ js '' ==='' @ post \<and>
        n \<noteq> [] \<and> (\<forall>c \<in> set n. is_digit c) \<and> (\<forall>c \<in> set t. \<not> is_line_terminator c)"
    using n t(2) by blast
next
  assume "\<exists>n t post. s = js ''=== PROMPT '' @ n @ js '': '' @ t @ js '' ==='' @ post \<and>
        n \<noteq> [] \<and> (\<forall>c \<in> set n. is_digit c) \<and> (\<forall>c \<in> set t. \<not> is_line_terminator c)"
  then obtain n t post where s: "s = js ''=== PROMPT '' @ (n @ js '': '' @ (t @ js '' ==='' @ post))"
    and n: "n \<noteq> []" "\<forall>c \<in> set n. is_digit c" and t: "\<forall>c \<in> set t. \<not> is_line_terminator c"
    by auto
  have tc: "title_closes (t @ js '' ==='' @ post)"
    unfolding title_closes_shape using t by blast
  have tw: "takeWhile is_digit (n @ js '': '' @ (t @ js '' ==='' @ post)) = n"
    using n(2) by (rule takeWhile_digits)
  have dw: "dropWhile is_digit (n @ js '': '' @ (t @ js '' ==='' @ post)) = js '': '' @ (t @ js '' ==='' @ post)"
    using n(2) by (rule dropWhile_digits)
  show "delimiter_at s"
    unfolding delimiter_at_def s strip_prefix_append option.case tw dw
    using n(1) tc by simp
qed

lemma contains_delimiter_shape:
  "contains_delimiter inp \<longleftrightarrow>
     (\<exists>pre n t post. inp = pre @ js ''=== PROMPT '' @ n @ js '': '' @ t @ js '' ==='' @ post \<and>
        n \<noteq> [] \<and> (\<forall>c \<in> set n. is_digit c) \<and> (\<forall>c \<in> set t. \<not> is_line_terminator c))"
proof -
  have "contains_delimiter inp \<longleftrightarrow> (\<exists>pre s. inp = pre @ s \<and> delimiter_at s)"
  proof (induction inp)
    case Nil
    then show ?case by (simp add: delimiter_at_Nil)
  next
    case (Cons c cs)
    show ?case
    proof
      assume "contains_delimiter (c # cs)"
      then consider "delimiter_at (c # cs)" | "contains_delimiter cs" by auto
      then show "\<exists>pre s. c # cs = pre @ s \<and> delimiter_at s"
      proof cases
        case 1
        then show ?thesis by (metis append_Nil)
      next
        case 2
        with Cons.IH obtain pre s where "cs = pre @ s" "delimiter_at s" by blast
        then have "c # cs = (c # pre) @ s \<and> delimiter_at s" by simp
        then show ?thesis by blast
      qed
    next
      assume "\<exists>pre s. c # cs = pre @ s \<and> delimiter_at s"
      then obtain pre s where ps: "c # cs = pre @ s" "delimiter_at s" by blast
      show "contains_delimiter (c # cs)"
      proof (cases pre)
        case Nil
        with ps have "delimiter_at (c # cs)" by simp
        then show ?thesis by simp
      next
        case (Cons p pre')
        with ps have "cs = pre' @ s" by simp
        with ps(2) Cons.IH show ?thesis by auto
      qed
    qed
  qed
  then show ?thesis unfolding delimiter_at_shape by (metis (no_types, lifting))
qed

subsection \<open>The claims about parsePrompts\<close>

text \<open>
  C1. The claim: for an input with \<open>N \<ge> 1\<close> well-formed delimiters, \<open>parsePrompts\<close> returns
  \<open>N\<close> chunks, the i-th with the id and title of the i-th delimiter and with the trimmed text
  up to the next delimiter or the end of the input as its content. The code does not do
  that: the look-ahead that should stop the content at the end of the input is written
  \<^verbatim>\<open>\z\<close>, which in ECMAScript matches the letter z. So the chunk of the last delimiter is
  lost unless a z follows it, and a content is cut at its first z. The input
  \<^verbatim>\<open>=== PROMPT 1: Setup ===\nDo X\<close> holds one delimiter and comes back as the fallback chunk
  (title \<^verbatim>\<open>Complete Mission\<close>, the delimiter line inside the content); the input
  \<^verbatim>\<open>=== PROMPT 1: Resize ===\nResize the image\n=== PROMPT 2: Done ===\nStop\<close> holds two
  and comes back as one chunk whose content is \<^verbatim>\<open>Resi\<close>.
\<close>

theorem parsePrompts_loses_last_chunk:
  "contains_delimiter (js ''=== PROMPT 1: Setup ===\<newline>Do X'') \<and>
   parsePrompts (js ''=== PROMPT 1: Setup ===\<newline>Do X'') =
     [\<lparr>prompt_id = js ''1'', title = js ''Complete Mission'',
       content = js ''=== PROMPT 1: Setup ===\<newline>Do X''\<rparr>] \<and>
   parsePrompts (js ''=== PROMPT 1: Resize ===\<newline>Resize the image\<newline>=== PROMPT 2: Done ===\<newline>Stop'') =
     [\<lparr>prompt_id = js ''1'', title = js ''Resize'', content = js ''Resi''\<rparr>]"
  by (simp add: parsePrompts_def matchAll.simps match_at_def match_colon_def match_close_def
      lookahead_def delimiter_at_def trim_def js_def is_digit_def is_line_terminator_def
      is_white_space_def)

text \<open>
  C2. The claim: the scenario input of the specification parses into the two chunks
  (1, Setup, Do X) and (2, Build, Do Y). On the code it parses into the first chunk only:
  after the second delimiter neither \<^verbatim>\<open>=== PROMPT\<close> nor a z follows, so the expression
  does not match there (the same defect as in C1).
\<close>

theorem parsePrompts_scenario:
  "parsePrompts (js ''=== PROMPT 1: Setup ===\<newline>Do X\<newline>=== PROMPT 2: Build ===\<newline>Do Y\<newline>'') =
     [\<lparr>prompt_id = js ''1'', title = js ''Setup'', content = js ''Do X''\<rparr>]"
  by (simp add: parsePrompts_def matchAll.simps match_at_def match_colon_def match_close_def
      lookahead_def trim_def js_def is_digit_def is_line_terminator_def is_white_space_def)

text \<open>
  C3. For every input that holds no delimiter of the shape
  \<^verbatim>\<open>=== PROMPT <number>: <title> ===\<close>, \<open>parsePrompts\<close> returns exactly one chunk, with id
  \<^verbatim>\<open>1\<close>, title \<^verbatim>\<open>Complete Mission\<close> and the whole input as its content.
  (\<open>contains_delimiter_shape\<close> says that \<open>contains_delimiter\<close> is that shape.)
\<close>

theorem parsePrompts_fallback:
  "\<not> contains_delimiter text \<Longrightarrow>
     parsePrompts text = [\<lparr>prompt_id = js ''1'', title = js ''Complete Mission'', content = text\<rparr>]"
  by (simp add: parsePrompts_def matchAll_no_delimiter)

theorem parsePrompts_fallback_witness:
  "\<not> contains_delimiter (js ''=== PROMPT one: Setup ===\<newline>Do X'') \<and>
   parsePrompts (js ''=== PROMPT one: Setup ===\<newline>Do X'') =
     [\<lparr>prompt_id = js ''1'', title = js ''Complete Mission'',
       content = js ''=== PROMPT one: Setup ===\<newline>Do X''\<rparr>]"
proof -
  have h: "\<not> contains_delimiter (js ''=== PROMPT one: Setup ===\<newline>Do X'')"
    by (simp add: delimiter_at_def js_def is_digit_def)
  from h parsePrompts_fallback [OF h] show ?thesis by simp
qed

section \<open>Properties of the pipeline controller\<close>

subsection \<open>The concrete runs\<close>

lemma demo_fetch:
  "fetchRepoContents insertion_sort demo_net (js ''https://github.com/octo/demo/'')
     = (demo_requests, Inr demo_files)"
  by (simp add: fetchRepoContents_def parseRepoUrl_def remove_trailing_slash_def fetchAfterTree_def
      limitedFiles_def relevantFiles_def insertion_sort_def compareFiles_def isCode_def isLock_def
      codeExtensions_def endsWith_def split_on_def rawUrl_def fetchFile_def GITHUB_API_BASE_def js_def
      demo_net_def demo_tree_def demo_item_def demo_response_def demo_files_def demo_requests_def not_json_def)

lemma demo_scout:
  "runScoutAgent demo_ai obj fb files imgs = Inr (js ''scout log'')"
  by (simp add: runScoutAgent_def demo_ai_def or_else_opt_def or_else_def js_def)

lemma demo_architect:
  "runArchitectAgent demo_ai lg obj fb imgs = Inr (js ''plan'')"
  by (simp add: runArchitectAgent_def demo_ai_def or_else_opt_def or_else_def js_def)

lemma demo_taskmaster:
  "runTaskmasterAgent demo_ai lg files = Inr (js ''=== PROMPT 1: Setup ===\<newline>Do X'')"
  by (simp add: runTaskmasterAgent_def demo_ai_def or_else_opt_def or_else_def js_def)

lemma demo_refiner:
  "runRefinerAgent demo_ai cp fb lg files = Inr (js ''=== PROMPT 1: Setup ===\<newline>Do X and Y'')"
  by (simp add: runRefinerAgent_def demo_ai_def or_else_opt_def or_else_def js_def)

lemma failing_scout_ok:
  "a \<noteq> Scout \<Longrightarrow> runScoutAgent (failing_ai a) obj fb files imgs = Inr (js ''scout log'')"
  by (simp add: runScoutAgent_def failing_ai_def demo_ai_def or_else_opt_def or_else_def js_def)

lemma failing_architect:
  "runArchitectAgent (failing_ai Architect) lg obj fb imgs = Inl (Error (js ''Architect Agent failed to plan.''))"
  by (simp add: runArchitectAgent_def failing_ai_def)

lemma failing_refiner:
  "runRefinerAgent (failing_ai Refiner) cp fb lg files = Inl (Error (js ''Refiner Agent failed to fix instructions.''))"
  by (simp add: runRefinerAgent_def failing_ai_def)

lemma demo_app_inputs: "repoUrl demo_app \<noteq> []" "objective demo_app \<noteq> []"
  by (simp_all add: demo_app_def js_def)

lemma completed_app_fields:
  "finalPrompt (state completed_app) = Some (js ''=== PROMPT 1: Setup ===\<newline>Do X'')"
  "refinementInput completed_app = js ''Also do Y''"
  "missionLog (state completed_app) = js ''plan''"
  "repoFilesRef completed_app = demo_files"
  by (simp_all add: completed_app_def)

subsection \<open>executePipeline\<close>

text \<open>
  C4. Called with an empty repository locator or an empty objective, \<open>executePipeline\<close>
  does nothing: the component state (status, mission log, final prompt, error and all
  inputs) is what it was, and nothing is called, neither the fetcher nor an agent.
\<close>

theorem executePipeline_noop:
  "repoUrl app = [] \<or> objective app = [] \<Longrightarrow> executePipeline w app = (app, [])"
  by (auto simp: executePipeline_def)

theorem executePipeline_noop_witness:
  "objective (demo_app\<lparr>objective := []\<rparr>) = [] \<and>
   executePipeline demo_world (demo_app\<lparr>objective := []\<rparr>) = (demo_app\<lparr>objective := []\<rparr>, [])"
  using executePipeline_noop [of "demo_app\<lparr>objective := []\<rparr>" demo_world] by simp

text \<open>
  C5. With a locator and an objective, and when the fetcher and the three agents succeed,
  a run is exactly this: the mission log is reset to the manifesto and the final prompt
  and the error are cleared, with status \<open>FETCHING_REPO\<close>; the fetcher is called; status
  \<open>SCOUT_WORKING\<close>, then the Scout is called with the fetched files and its answer
  becomes the mission log; status \<open>ARCHITECT_WORKING\<close>, then the Architect is called with
  the Scout's answer and its answer becomes the mission log; status \<open>TASKMASTER_WORKING\<close>,
  then the Taskmaster is called with the Architect's answer and the fetched files, and its
  answer becomes the final prompt (the mission log stays the Architect's answer) with
  status \<open>COMPLETED\<close>.
\<close>

theorem executePipeline_success:
  assumes "repoUrl app \<noteq> []" and "objective app \<noteq> []"
    and "fetchRepoContents (world_sort w) (world_net w) (repoUrl app) = (reqs, Inr files)"
    and "runScoutAgent (world_ai w) (objective app) (errorFeedback app) files (referenceImages app)
           = Inr scoutLog"
    and "runArchitectAgent (world_ai w) scoutLog (objective app) (errorFeedback app)
           (referenceImages app) = Inr architectLog"
    and "runTaskmasterAgent (world_ai w) architectLog files = Inr final"
  shows "executePipeline w app =
     (app\<lparr>state := \<lparr>status = COMPLETED, missionLog = architectLog, finalPrompt = Some final,
                      error = None\<rparr>,
          repoFilesRef := files\<rparr>,
      [SetState \<lparr>status = FETCHING_REPO, missionLog = INITIAL_MISSION_LOG, finalPrompt = None,
                 error = None\<rparr>,
       FetchCall (repoUrl app)] @ map NetRequest reqs @
      [SetState \<lparr>status = SCOUT_WORKING, missionLog = INITIAL_MISSION_LOG, finalPrompt = None,
                 error = None\<rparr>,
       ScoutCall (objective app) (errorFeedback app) files (referenceImages app),
       SetState \<lparr>status = SCOUT_WORKING, missionLog = scoutLog, finalPrompt = None, error = None\<rparr>,
       SetState \<lparr>status = ARCHITECT_WORKING, missionLog = scoutLog, finalPrompt = None,
                 error = None\<rparr>,
       ArchitectCall scoutLog (objective app) (errorFeedback app) (referenceImages app),
       SetState \<lparr>status = ARCHITECT_WORKING, missionLog = architectLog, finalPrompt = None,
                 error = None\<rparr>,
       SetState \<lparr>status = TASKMASTER_WORKING, missionLog = architectLog, finalPrompt = None,
                 error = None\<rparr>,
       TaskmasterCall architectLog files,
       SetState \<lparr>status = COMPLETED, missionLog = architectLog, finalPrompt = Some final,
                 error = None\<rparr>])"
  using assms by (simp add: executePipeline_def setState_def called_def)

theorem executePipeline_success_witness:
  "status (state (fst (executePipeline demo_world demo_app))) = COMPLETED \<and>
   finalPrompt (state (fst (executePipeline demo_world demo_app)))
     = Some (js ''=== PROMPT 1: Setup ===\<newline>Do X'') \<and>
   missionLog (state (fst (executePipeline demo_world demo_app))) = js ''plan'' \<and>
   repoFilesRef (fst (executePipeline demo_world demo_app)) = demo_files \<and>
   length (snd (executePipeline demo_world demo_app)) = 15"
proof -
  have f: "fetchRepoContents (world_sort demo_world) (world_net demo_world) (repoUrl demo_app) = (demo_requests, Inr demo_files)"
    by (simp add: demo_world_def demo_app_def demo_fetch)
  have s: "runScoutAgent (world_ai demo_world) (objective demo_app) (errorFeedback demo_app) demo_files
             (referenceImages demo_app) = Inr (js ''scout log'')"
    by (simp add: demo_world_def demo_scout)
  have a: "runArchitectAgent (world_ai demo_world) (js ''scout log'') (objective demo_app)
             (errorFeedback demo_app) (referenceImages demo_app) = Inr (js ''plan'')"
    by (simp add: demo_world_def demo_architect)
  have t: "runTaskmasterAgent (world_ai demo_world) (js ''plan'') demo_files
             = Inr (js ''=== PROMPT 1: Setup ===\<newline>Do X'')"
    by (simp add: demo_world_def demo_taskmaster)
  show ?thesis
    by (simp add: executePipeline_success [OF demo_app_inputs f s a t] demo_requests_def)
qed

text \<open>
  C6. When the fetcher or an agent fails, the run ends there: the status becomes \<open>ERROR\<close>,
  the error holds the message of the failure (or the fixed message of the pipeline when
  that is empty), nothing more is called, and the mission log and the final prompt stay as
  they were at the failure. One case for each of the four calls; when the Architect fails
  the final prompt is still absent, the Taskmaster is not called, and the mission log is
  the Scout's answer.
\<close>

theorem executePipeline_failure:
  assumes "repoUrl app \<noteq> []" and "objective app \<noteq> []"
  shows
   "(fetchRepoContents (world_sort w) (world_net w) (repoUrl app) = (reqs, Inl err) \<longrightarrow>
       executePipeline w app =
         (app\<lparr>state := \<lparr>status = ERROR, missionLog = INITIAL_MISSION_LOG, finalPrompt = None,
                          error = Some (or_else (message err)
                                         (js ''An unexpected error occurred in the pipeline.''))\<rparr>\<rparr>,
          [SetState \<lparr>status = FETCHING_REPO, missionLog = INITIAL_MISSION_LOG, finalPrompt = None,
                     error = None\<rparr>,
           FetchCall (repoUrl app)] @ map NetRequest reqs @
          [SetState \<lparr>status = ERROR, missionLog = INITIAL_MISSION_LOG, finalPrompt = None,
                     error = Some (or_else (message err)
                                    (js ''An unexpected error occurred in the pipeline.''))\<rparr>]))
    \<and> (fetchRepoContents (world_sort w) (world_net w) (repoUrl app) = (reqs, Inr files) \<and>
       runScoutAgent (world_ai w) (objective app) (errorFeedback app) files (referenceImages app)
         = Inl err \<longrightarrow>
       executePipeline w app =
         (app\<lparr>state := \<lparr>status = ERROR, missionLog = INITIAL_MISSION_LOG, finalPrompt = None,
                          error = Some (or_else (message err)
                                         (js ''An unexpected error occurred in the pipeline.''))\<rparr>,
              repoFilesRef := files\<rparr>,
          [SetState \<lparr>status = FETCHING_REPO, missionLog = INITIAL_MISSION_LOG, finalPrompt = None,
                     error = None\<rparr>,
           FetchCall (repoUrl app)] @ map NetRequest reqs @
          [SetState \<lparr>status = SCOUT_WORKING, missionLog = INITIAL_MISSION_LOG, finalPrompt = None,
                     error = None\<rparr>,
           ScoutCall (objective app) (errorFeedback app) files (referenceImages app),
           SetState \<lparr>status = ERROR, missionLog = INITIAL_MISSION_LOG, finalPrompt = None,
                     error = Some (or_else (message err)
                                    (js ''An unexpected error occurred in the pipeline.''))\<rparr>]))
    \<and> (fetchRepoContents (world_sort w) (world_net w) (repoUrl app) = (reqs, Inr files) \<and>
       runScoutAgent (world_ai w) (objective app) (errorFeedback app) files (referenceImages app)
         = Inr scoutLog \<and>
       runArchitectAgent (world_ai w) scoutLog (objective app) (errorFeedback app)
         (referenceImages app) = Inl err \<longrightarrow>
       executePipeline w app =
         (app\<lparr>state := \<lparr>status = ERROR, missionLog = scoutLog, finalPrompt = None,
                          error = Some (or_else (message err)
                                         (js ''An unexpected error occurred in the pipeline.''))\<rparr>,
              repoFilesRef := files\<rparr>,
          [SetState \<lparr>status = FETCHING_REPO, missionLog = INITIAL_MISSION_LOG, finalPrompt = None,
                     error = None\<rparr>,
           FetchCall (repoUrl app)] @ map NetRequest reqs @
          [SetState \<lparr>status = SCOUT_WORKING, missionLog = INITIAL_MISSION_LOG, finalPrompt = None,
                     error = None\<rparr>,
           ScoutCall (objective app) (errorFeedback app) files (referenceImages app),
           SetState \<lparr>status = SCOUT_WORKING, missionLog = scoutLog, finalPrompt = None,
                     error = None\<rparr>,
           SetState \<lparr>status = ARCHITECT_WORKING, missionLog = scoutLog, finalPrompt = None,
                     error = None\<rparr>,
           ArchitectCall scoutLog (objective app) (errorFeedback app) (referenceImages app),
           SetState \<lparr>status = ERROR, missionLog = scoutLog, finalPrompt = None,
                     error = Some (or_else (message err)
                                    (js ''An unexpected error occurred in the pipeline.''))\<rparr>]))
    \<and> (fetchRepoContents (world_sort w) (world_net w) (repoUrl app) = (reqs, Inr files) \<and>
       runScoutAgent (world_ai w) (objective app) (errorFeedback app) files (referenceImages app)
         = Inr scoutLog \<and>
       runArchitectAgent (world_ai w) scoutLog (objective app) (errorFeedback app)
         (referenceImages app) = Inr architectLog \<and>
       runTaskmasterAgent (world_ai w) architectLog files = Inl err \<longrightarrow>
       executePipeline w app =
         (app\<lparr>state := \<lparr>status = ERROR, missionLog = architectLog, finalPrompt = None,
                          error = Some (or_else (message err)
                                         (js ''An unexpected error occurred in the pipeline.''))\<rparr>,
              repoFilesRef := files\<rparr>,
          [SetState \<lparr>status = FETCHING_REPO, missionLog = INITIAL_MISSION_LOG, finalPrompt = None,
                     error = None\<rparr>,
           FetchCall (repoUrl app)] @ map NetRequest reqs @
          [SetState \<lparr>status = SCOUT_WORKING, missionLog = INITIAL_MISSION_LOG, finalPrompt = None,
                     error = None\<rparr>,
           ScoutCall (objective app) (errorFeedback app) files (referenceImages app),
           SetState \<lparr>status = SCOUT_WORKING, missionLog = scoutLog, finalPrompt = None,
                     error = None\<rparr>,
           SetState \<lparr>status = ARCHITECT_WORKING, missionLog = scoutLog, finalPrompt = None,
                     error = None\<rparr>,
           ArchitectCall scoutLog (objective app) (errorFeedback app) (referenceImages app),
           SetState \<lparr>status = ARCHITECT_WORKING, missionLog = architectLog, finalPrompt = None,
                     error = None\<rparr>,
           SetState \<lparr>status = TASKMASTER_WORKING, missionLog = architectLog, finalPrompt = None,
                     error = None\<rparr>,
           TaskmasterCall architectLog files,
           SetState \<lparr>status = ERROR, missionLog = architectLog, finalPrompt = None,
                     error = Some (or_else (message err)
                                    (js ''An unexpected error occurred in the pipeline.''))\<rparr>]))"
proof (intro conjI impI)
  assume "fetchRepoContents (world_sort w) (world_net w) (repoUrl app) = (reqs, Inl err)"
  with assms show "executePipeline w app =
         (app\<lparr>state := \<lparr>status = ERROR, missionLog = INITIAL_MISSION_LOG, finalPrompt = None,
                          error = Some (or_else (message err)
                                         (js ''An unexpected error occurred in the pipeline.''))\<rparr>\<rparr>,
          [SetState \<lparr>status = FETCHING_REPO, missionLog = INITIAL_MISSION_LOG, finalPrompt = None,
                     error = None\<rparr>,
           FetchCall (repoUrl app)] @ map NetRequest reqs @
          [SetState \<lparr>status = ERROR, missionLog = INITIAL_MISSION_LOG, finalPrompt = None,
                     error = Some (or_else (message err)
                                    (js ''An unexpected error occurred in the pipeline.''))\<rparr>])"
    by (simp add: executePipeline_def setState_def called_def pipelineCatch_def)
qed (use assms in \<open>simp_all add: executePipeline_def setState_def called_def pipelineCatch_def\<close>)

theorem executePipeline_failure_witness:
  "executePipeline (failing_world Architect) demo_app =
     (demo_app\<lparr>state := \<lparr>status = ERROR, missionLog = js ''scout log'', finalPrompt = None,
                          error = Some (js ''Architect Agent failed to plan.'')\<rparr>,
               repoFilesRef := demo_files\<rparr>,
      [SetState \<lparr>status = FETCHING_REPO, missionLog = INITIAL_MISSION_LOG, finalPrompt = None,
                 error = None\<rparr>,
       FetchCall (repoUrl demo_app)] @ map NetRequest demo_requests @
      [SetState \<lparr>status = SCOUT_WORKING, missionLog = INITIAL_MISSION_LOG, finalPrompt = None,
                 error = None\<rparr>,
       ScoutCall (objective demo_app) (errorFeedback demo_app) demo_files (referenceImages demo_app),
       SetState \<lparr>status = SCOUT_WORKING, missionLog = js ''scout log'', finalPrompt = None,
                 error = None\<rparr>,
       SetState \<lparr>status = ARCHITECT_WORKING, missionLog = js ''scout log'', finalPrompt = None,
                 error = None\<rparr>,
       ArchitectCall (js ''scout log'') (objective demo_app) (errorFeedback demo_app)
         (referenceImages demo_app),
       SetState \<lparr>status = ERROR, missionLog = js ''scout log'', finalPrompt = None,
                 error = Some (js ''Architect Agent failed to plan.'')\<rparr>]) \<and>
   executePipeline offline_world demo_app =
     (demo_app\<lparr>state := \<lparr>status = ERROR, missionLog = INITIAL_MISSION_LOG, finalPrompt = None,
                          error = Some (js ''Failed to fetch'')\<rparr>\<rparr>,
      [SetState \<lparr>status = FETCHING_REPO, missionLog = INITIAL_MISSION_LOG, finalPrompt = None,
                 error = None\<rparr>,
       FetchCall (repoUrl demo_app),
       NetRequest (js ''https://api.github.com/repos/octo/demo/git/trees/main?recursive=1''),
       SetState \<lparr>status = ERROR, missionLog = INITIAL_MISSION_LOG, finalPrompt = None,
                 error = Some (js ''Failed to fetch'')\<rparr>])"
proof (intro conjI)
  have f: "fetchRepoContents (world_sort (failing_world Architect))
             (world_net (failing_world Architect)) (repoUrl demo_app)
             = (demo_requests, Inr demo_files)"
    by (simp add: failing_world_def demo_app_def demo_fetch)
  have s: "runScoutAgent (world_ai (failing_world Architect)) (objective demo_app)
             (errorFeedback demo_app) demo_files (referenceImages demo_app) = Inr (js ''scout log'')"
    by (simp add: failing_world_def failing_scout_ok)
  have a: "runArchitectAgent (world_ai (failing_world Architect)) (js ''scout log'')
             (objective demo_app) (errorFeedback demo_app) (referenceImages demo_app)
             = Inl (Error (js ''Architect Agent failed to plan.''))"
    by (simp add: failing_world_def failing_architect)
  have nonempty: "js ''Architect Agent failed to plan.'' \<noteq> []"
    by (simp add: js_def)
  from executePipeline_failure [OF demo_app_inputs, of "failing_world Architect" demo_requests
      "Error (js ''Architect Agent failed to plan.'')" demo_files "js ''scout log''"] f s a nonempty
  show "executePipeline (failing_world Architect) demo_app =
     (demo_app\<lparr>state := \<lparr>status = ERROR, missionLog = js ''scout log'', finalPrompt = None,
                          error = Some (js ''Architect Agent failed to plan.'')\<rparr>,
               repoFilesRef := demo_files\<rparr>,
      [SetState \<lparr>status = FETCHING_REPO, missionLog = INITIAL_MISSION_LOG, finalPrompt = None,
                 error = None\<rparr>,
       FetchCall (repoUrl demo_app)] @ map NetRequest demo_requests @
      [SetState \<lparr>status = SCOUT_WORKING, missionLog = INITIAL_MISSION_LOG, finalPrompt = None,
                 error = None\<rparr>,
       ScoutCall (objective demo_app) (errorFeedback demo_app) demo_files (referenceImages demo_app),
       SetState \<lparr>status = SCOUT_WORKING, missionLog = js ''scout log'', finalPrompt = None,
                 error = None\<rparr>,
       SetState \<lparr>status = ARCHITECT_WORKING, missionLog = js ''scout log'', finalPrompt = None,
                 error = None\<rparr>,
       ArchitectCall (js ''scout log'') (objective demo_app) (errorFeedback demo_app)
         (referenceImages demo_app),
       SetState \<lparr>status = ERROR, missionLog = js ''scout log'', finalPrompt = None,
                 error = Some (js ''Architect Agent failed to plan.'')\<rparr>])"
    by (simp add: or_else_def)
next
  have off: "fetchRepoContents (world_sort offline_world) (world_net offline_world) (repoUrl demo_app)
             = ([js ''https://api.github.com/repos/octo/demo/git/trees/main?recursive=1''],
                Inl (Error (js ''Failed to fetch'')))"
    by (simp add: offline_world_def demo_app_def fetchRepoContents_def parseRepoUrl_def
        remove_trailing_slash_def split_on_def GITHUB_API_BASE_def js_def)
  have nonempty: "js ''Failed to fetch'' \<noteq> []"
    by (simp add: js_def)
  from executePipeline_failure [OF demo_app_inputs, of offline_world
      "[js ''https://api.github.com/repos/octo/demo/git/trees/main?recursive=1'']"
      "Error (js ''Failed to fetch'')"] off nonempty
  show "executePipeline offline_world demo_app =
     (demo_app\<lparr>state := \<lparr>status = ERROR, missionLog = INITIAL_MISSION_LOG, finalPrompt = None,
                          error = Some (js ''Failed to fetch'')\<rparr>\<rparr>,
      [SetState \<lparr>status = FETCHING_REPO, missionLog = INITIAL_MISSION_LOG, finalPrompt = None,
                 error = None\<rparr>,
       FetchCall (repoUrl demo_app),
       NetRequest (js ''https://api.github.com/repos/octo/demo/git/trees/main?recursive=1''),
       SetState \<lparr>status = ERROR, missionLog = INITIAL_MISSION_LOG, finalPrompt = None,
                 error = Some (js ''Failed to fetch'')\<rparr>])"
    by (simp add: or_else_def)
qed

subsection \<open>executeRefinement\<close>

lemma executeRefinement_skips:
  "finalPrompt (state app) = None \<or> finalPrompt (state app) = Some [] \<or> refinementInput app = []
     \<Longrightarrow> executeRefinement w app = (app, [])"
  by (auto simp: executeRefinement_def split: option.splits)

lemma executeRefinement_runs:
  assumes "finalPrompt (state app) = Some current" and "current \<noteq> []"
    and "refinementInput app \<noteq> []"
  shows "executeRefinement w app =
     (case runRefinerAgent (world_ai w) current (refinementInput app) (missionLog (state app))
             (repoFilesRef app) of
        Inr updatedPrompts \<Rightarrow>
          (app\<lparr>state := (state app)\<lparr>status := COMPLETED, finalPrompt := Some updatedPrompts,
                                     error := None\<rparr>,
               refinementInput := []\<rparr>,
           [SetState ((state app)\<lparr>status := REFINING, error := None\<rparr>),
            RefinerCall current (refinementInput app) (missionLog (state app)) (repoFilesRef app),
            SetState ((state app)\<lparr>status := COMPLETED, finalPrompt := Some updatedPrompts,
                                   error := None\<rparr>)])
      | Inl err \<Rightarrow>
          (app\<lparr>state := (state app)\<lparr>status := ERROR,
                                     error := Some (or_else (message err)
                                                     (js ''Failed to refine instructions.''))\<rparr>\<rparr>,
           [SetState ((state app)\<lparr>status := REFINING, error := None\<rparr>),
            RefinerCall current (refinementInput app) (missionLog (state app)) (repoFilesRef app),
            SetState ((state app)\<lparr>status := ERROR,
                                   error := Some (or_else (message err)
                                                   (js ''Failed to refine instructions.''))\<rparr>)]))"
  using assms by (simp add: executeRefinement_def setState_def called_def split: sum.splits)

text \<open>
  C7. \<open>executeRefinement\<close> does nothing (no state change, no call of the Refiner) when
  there is no final prompt (or an empty one) or the feedback is empty. Otherwise it sets
  the status to \<open>REFINING\<close> and calls the Refiner once; on success the final prompt is
  the Refiner's answer, the status is \<open>COMPLETED\<close> and the feedback input is cleared; on
  failure the status is \<open>ERROR\<close>, the error holds a message, and the final prompt is what
  it was.
\<close>

theorem executeRefinement_cases:
  "(finalPrompt (state app) = None \<or> finalPrompt (state app) = Some [] \<or> refinementInput app = []
      \<longrightarrow> executeRefinement w app = (app, []))
   \<and> (finalPrompt (state app) = Some current \<and> current \<noteq> [] \<and> refinementInput app \<noteq> [] \<and>
        runRefinerAgent (world_ai w) current (refinementInput app) (missionLog (state app))
          (repoFilesRef app) = Inr updatedPrompts \<longrightarrow>
        executeRefinement w app =
          (app\<lparr>state := (state app)\<lparr>status := COMPLETED, finalPrompt := Some updatedPrompts,
                                     error := None\<rparr>,
               refinementInput := []\<rparr>,
           [SetState ((state app)\<lparr>status := REFINING, error := None\<rparr>),
            RefinerCall current (refinementInput app) (missionLog (state app)) (repoFilesRef app),
            SetState ((state app)\<lparr>status := COMPLETED, finalPrompt := Some updatedPrompts,
                                   error := None\<rparr>)]))
   \<and> (finalPrompt (state app) = Some current \<and> current \<noteq> [] \<and> refinementInput app \<noteq> [] \<and>
        runRefinerAgent (world_ai w) current (refinementInput app) (missionLog (state app))
          (repoFilesRef app) = Inl err \<longrightarrow>
        executeRefinement w app =
          (app\<lparr>state := (state app)\<lparr>status := ERROR,
                                     error := Some (or_else (message err)
                                                     (js ''Failed to refine instructions.''))\<rparr>\<rparr>,
           [SetState ((state app)\<lparr>status := REFINING, error := None\<rparr>),
            RefinerCall current (refinementInput app) (missionLog (state app)) (repoFilesRef app),
            SetState ((state app)\<lparr>status := ERROR,
                                   error := Some (or_else (message err)
                                                   (js ''Failed to refine instructions.''))\<rparr>)]))"
proof (intro conjI impI)
  assume "finalPrompt (state app) = None \<or> finalPrompt (state app) = Some [] \<or> refinementInput app = []"
  then show "executeRefinement w app = (app, [])" by (rule executeRefinement_skips)
qed (simp_all add: executeRefinement_runs)

theorem executeRefinement_cases_witness:
  "executeRefinement demo_world demo_app = (demo_app, []) \<and>
   executeRefinement demo_world completed_app =
     (completed_app\<lparr>state := \<lparr>status = COMPLETED, missionLog = js ''plan'',
                               finalPrompt = Some (js ''=== PROMPT 1: Setup ===\<newline>Do X and Y''),
                               error = None\<rparr>,
                    refinementInput := []\<rparr>,
      [SetState \<lparr>status = REFINING, missionLog = js ''plan'',
                 finalPrompt = Some (js ''=== PROMPT 1: Setup ===\<newline>Do X''), error = None\<rparr>,
       RefinerCall (js ''=== PROMPT 1: Setup ===\<newline>Do X'') (js ''Also do Y'') (js ''plan'') demo_files,
       SetState \<lparr>status = COMPLETED, missionLog = js ''plan'',
                 finalPrompt = Some (js ''=== PROMPT 1: Setup ===\<newline>Do X and Y''),
                 error = None\<rparr>]) \<and>
   executeRefinement (failing_world Refiner) completed_app =
     (completed_app\<lparr>state := \<lparr>status = ERROR, missionLog = js ''plan'',
                               finalPrompt = Some (js ''=== PROMPT 1: Setup ===\<newline>Do X''),
                               error = Some (js ''Refiner Agent failed to fix instructions.'')\<rparr>\<rparr>,
      [SetState \<lparr>status = REFINING, missionLog = js ''plan'',
                 finalPrompt = Some (js ''=== PROMPT 1: Setup ===\<newline>Do X''), error = None\<rparr>,
       RefinerCall (js ''=== PROMPT 1: Setup ===\<newline>Do X'') (js ''Also do Y'') (js ''plan'') demo_files,
       SetState \<lparr>status = ERROR, missionLog = js ''plan'',
                 finalPrompt = Some (js ''=== PROMPT 1: Setup ===\<newline>Do X''),
                 error = Some (js ''Refiner Agent failed to fix instructions.'')\<rparr>])"
proof (intro conjI)
  have "finalPrompt (state demo_app) = None" by (simp add: demo_app_def)
  with executeRefinement_cases [of demo_app demo_world]
  show "executeRefinement demo_world demo_app = (demo_app, [])" by simp
next
  have ne: "js ''=== PROMPT 1: Setup ===\<newline>Do X'' \<noteq> []" "js ''Also do Y'' \<noteq> []"
    by (simp_all add: js_def)
  have r: "runRefinerAgent (world_ai demo_world) (js ''=== PROMPT 1: Setup ===\<newline>Do X'')
             (refinementInput completed_app) (missionLog (state completed_app))
             (repoFilesRef completed_app) = Inr (js ''=== PROMPT 1: Setup ===\<newline>Do X and Y'')"
    by (simp add: demo_world_def demo_refiner)
  from executeRefinement_cases [of completed_app demo_world
      "js ''=== PROMPT 1: Setup ===\<newline>Do X''" "js ''=== PROMPT 1: Setup ===\<newline>Do X and Y''"]
    r ne
  show "executeRefinement demo_world completed_app =
     (completed_app\<lparr>state := \<lparr>status = COMPLETED, missionLog = js ''plan'',
                               finalPrompt = Some (js ''=== PROMPT 1: Setup ===\<newline>Do X and Y''),
                               error = None\<rparr>,
                    refinementInput := []\<rparr>,
      [SetState \<lparr>status = REFINING, missionLog = js ''plan'',
                 finalPrompt = Some (js ''=== PROMPT 1: Setup ===\<newline>Do X''), error = None\<rparr>,
       RefinerCall (js ''=== PROMPT 1: Setup ===\<newline>Do X'') (js ''Also do Y'') (js ''plan'') demo_files,
       SetState \<lparr>status = COMPLETED, missionLog = js ''plan'',
                 finalPrompt = Some (js ''=== PROMPT 1: Setup ===\<newline>Do X and Y''),
                 error = None\<rparr>])"
    by (simp add: completed_app_fields)
next
  have ne: "js ''=== PROMPT 1: Setup ===\<newline>Do X'' \<noteq> []" "js ''Also do Y'' \<noteq> []"
    "js ''Refiner Agent failed to fix instructions.'' \<noteq> []"
    by (simp_all add: js_def)
  have r: "runRefinerAgent (world_ai (failing_world Refiner)) (js ''=== PROMPT 1: Setup ===\<newline>Do X'')
             (refinementInput completed_app) (missionLog (state completed_app))
             (repoFilesRef completed_app) = Inl (Error (js ''Refiner Agent failed to fix instructions.''))"
    by (simp add: failing_world_def failing_refiner)
  from executeRefinement_cases [of completed_app "failing_world Refiner"
      "js ''=== PROMPT 1: Setup ===\<newline>Do X''" _ "Error (js ''Refiner Agent failed to fix instructions.'')"]
    r ne
  show "executeRefinement (failing_world Refiner) completed_app =
     (completed_app\<lparr>state := \<lparr>status = ERROR, missionLog = js ''plan'',
                               finalPrompt = Some (js ''=== PROMPT 1: Setup ===\<newline>Do X''),
                               error = Some (js ''Refiner Agent failed to fix instructions.'')\<rparr>\<rparr>,
      [SetState \<lparr>status = REFINING, missionLog = js ''plan'',
                 finalPrompt = Some (js ''=== PROMPT 1: Setup ===\<newline>Do X''), error = None\<rparr>,
       RefinerCall (js ''=== PROMPT 1: Setup ===\<newline>Do X'') (js ''Also do Y'') (js ''plan'') demo_files,
       SetState \<lparr>status = ERROR, missionLog = js ''plan'',
                 finalPrompt = Some (js ''=== PROMPT 1: Setup ===\<newline>Do X''),
                 error = Some (js ''Refiner Agent failed to fix instructions.'')\<rparr>])"
    by (simp add: completed_app_fields or_else_def)
qed

lemma executePipeline_keeps_files:
  assumes "repoUrl app \<noteq> []" and "objective app \<noteq> []"
    and "fetchRepoContents (world_sort w) (world_net w) (repoUrl app) = (reqs, Inr files)"
  shows "repoFilesRef (fst (executePipeline w app)) = files"
  using assms
  by (simp add: executePipeline_def setState_def called_def pipelineCatch_def Let_def
      split: sum.splits)

text \<open>
  C8. Whatever \<open>executeRefinement\<close> does (nothing, a successful or a failed
  refinement), the mission log, the stored file list and the inputs of the pipeline are
  the same before and after; it calls no fetcher and asks the network for nothing: either
  nothing happens at all, or what happens is one call of the Refiner between two state
  updates, with the whole current final prompt, the feedback, the current mission log and
  the stored file list as arguments. The stored file list is the one the fetcher returned
  in the last pipeline run that fetched successfully.
\<close>

theorem executeRefinement_frame:
  "missionLog (state (fst (executeRefinement w app))) = missionLog (state app) \<and>
   repoFilesRef (fst (executeRefinement w app)) = repoFilesRef app \<and>
   repoUrl (fst (executeRefinement w app)) = repoUrl app \<and>
   objective (fst (executeRefinement w app)) = objective app \<and>
   errorFeedback (fst (executeRefinement w app)) = errorFeedback app \<and>
   referenceImages (fst (executeRefinement w app)) = referenceImages app \<and>
   (snd (executeRefinement w app) = [] \<or>
    (\<exists>current s1 s2.
       finalPrompt (state app) = Some current \<and>
       snd (executeRefinement w app) =
         [SetState s1,
          RefinerCall current (refinementInput app) (missionLog (state app)) (repoFilesRef app),
          SetState s2])) \<and>
   (repoUrl app \<noteq> [] \<and> objective app \<noteq> [] \<and>
    fetchRepoContents (world_sort w) (world_net w) (repoUrl app) = (reqs, Inr files) \<longrightarrow>
      repoFilesRef (fst (executePipeline w app)) = files)"
proof -
  have pipeline: "repoUrl app \<noteq> [] \<and> objective app \<noteq> [] \<and>
    fetchRepoContents (world_sort w) (world_net w) (repoUrl app) = (reqs, Inr files) \<longrightarrow>
      repoFilesRef (fst (executePipeline w app)) = files"
    by (simp add: executePipeline_keeps_files)
  show ?thesis
  proof (cases "finalPrompt (state app) = None \<or> finalPrompt (state app) = Some []
                \<or> refinementInput app = []")
    case True
    then have "executeRefinement w app = (app, [])" by (rule executeRefinement_skips)
    with pipeline show ?thesis by simp
  next
    case False
    then obtain current where c: "finalPrompt (state app) = Some current" "current \<noteq> []"
      "refinementInput app \<noteq> []" by auto
    show ?thesis
    proof (cases "runRefinerAgent (world_ai w) current (refinementInput app) (missionLog (state app))
                    (repoFilesRef app)")
      case (Inl err)
      with c pipeline show ?thesis by (simp add: executeRefinement_runs)
    next
      case (Inr updatedPrompts)
      with c pipeline show ?thesis by (simp add: executeRefinement_runs)
    qed
  qed
qed

theorem executeRefinement_frame_witness:
  "missionLog (state (fst (executeRefinement demo_world completed_app))) = js ''plan'' \<and>
   repoFilesRef (fst (executeRefinement demo_world completed_app)) = demo_files \<and>
   repoFilesRef (fst (executePipeline demo_world demo_app)) = demo_files"
proof -
  have f: "fetchRepoContents (world_sort demo_world) (world_net demo_world) (repoUrl demo_app) = (demo_requests, Inr demo_files)"
    by (simp add: demo_world_def demo_app_def demo_fetch)
  from executeRefinement_frame [where w = demo_world and app = completed_app]
  have 1: "missionLog (state (fst (executeRefinement demo_world completed_app))) = js ''plan''"
    and 2: "repoFilesRef (fst (executeRefinement demo_world completed_app)) = demo_files"
    by (simp_all add: completed_app_fields)
  from executeRefinement_frame [where w = demo_world and app = demo_app and reqs = demo_requests
      and files = demo_files] f demo_app_inputs
  have 3: "repoFilesRef (fst (executePipeline demo_world demo_app)) = demo_files"
    by simp
  from 1 2 3 show ?thesis by simp
qed

section \<open>Properties of the repository fetcher\<close>

subsection \<open>The check of the locator\<close>

lemma split_from_length: "length (split_from sep cur s) = Suc (count_list s sep)"
  by (induction s arbitrary: cur) auto

lemma split_on_length: "length (split_on sep s) = Suc (count_list s sep)"
  by (simp add: split_on_def split_from_length)

lemma parseRepoUrl_None:
  "parseRepoUrl u = None \<longleftrightarrow> 47 \<notin> set (remove_trailing_slash u)"
  by (auto simp: parseRepoUrl_def Let_def split_on_length count_list_0_iff)

text \<open>
  The only URLs the check refuses are those that hold no slash once one trailing slash is
  removed; for these no request is made.
\<close>

lemma fetchRepoContents_refuses_no_slash:
  "47 \<notin> set (remove_trailing_slash u) \<Longrightarrow>
     fetchRepoContents srt net u =
       ([], Inl (Error (js ''Invalid GitHub URL format. Use https://github.com/owner/repo'')))"
  by (simp add: fetchRepoContents_def parseRepoUrl_None [symmetric])

text \<open>
  C9. The claim: every URL with no recognisable owner and repository segments fails with
  the invalid-URL error before any request. The code means to check the format (its
  comment and its error message name \<^verbatim>\<open>https://github.com/owner/repo\<close>), but the check
  is only that the URL has two pieces between slashes, which every URL with a scheme has.
  So \<^verbatim>\<open>https://github.com\<close>, which names no owner and no repository, is parsed as the
  owner \<^verbatim>\<open>""\<close> and the repository \<^verbatim>\<open>github.com\<close>; with a network that answers 404 the
  two tree requests are made, and the error is that of the tree request, not the
  invalid-URL error.
\<close>

theorem fetchRepoContents_host_only_url:
  "parseRepoUrl (js ''https://github.com'') = Some \<lparr>owner = [], repo = js ''github.com''\<rparr> \<and>
   fetchRepoContents srt not_found_net (js ''https://github.com'') =
     ([js ''https://api.github.com/repos//github.com/git/trees/main?recursive=1'',
       js ''https://api.github.com/repos//github.com/git/trees/master?recursive=1''],
      Inl (Error (js ''Failed to fetch repo tree: Not Found. Ensure repo is public.'')))"
  by (simp add: fetchRepoContents_def fetchAfterTree_def parseRepoUrl_def remove_trailing_slash_def
      split_on_def GITHUB_API_BASE_def not_found_net_def js_def)

subsection \<open>The comparator\<close>

text \<open>
  What \<open>compareFiles\<close> decides: \<open>a\<close> is not put after \<open>b\<close> exactly when the path of \<open>a\<close>
  ends in \<^verbatim>\<open>package.json\<close>, or the path of \<open>b\<close> does not and \<open>a\<close> has no more segments
  than \<open>b\<close>. For two paths that end in \<^verbatim>\<open>package.json\<close> it answers \<open>- 1\<close> both ways.
\<close>

lemma compareFiles_order:
  "\<not> (compareFiles b a < 0 \<and> 0 < compareFiles a b) \<longleftrightarrow>
     endsWith (item_path a) (js ''package.json'') \<or>
     (\<not> endsWith (item_path b) (js ''package.json'') \<and>
      length (split_on 47 (item_path a)) \<le> length (split_on 47 (item_path b)))"
  by (auto simp: compareFiles_def Let_def)

lemma compareFiles_inconsistent:
  "endsWith (item_path a) (js ''package.json'') \<Longrightarrow> endsWith (item_path b) (js ''package.json'') \<Longrightarrow>
     compareFiles a b = - 1 \<and> compareFiles b a = - 1"
  by (simp add: compareFiles_def)

subsection \<open>The insertion sort permutes and respects the comparator\<close>

lemma mset_insert_by: "mset (insert_by cmp x ys) = add_mset x (mset ys)"
  by (induction ys) auto

lemma set_insert_by: "set (insert_by cmp x ys) = insert x (set ys)"
  by (induction ys) auto

lemma insertion_sort_permutes: "sort_permutes insertion_sort"
proof -
  have "mset (insertion_sort cmp xs) = mset xs" for cmp :: "GitHubTreeItem \<Rightarrow> GitHubTreeItem \<Rightarrow> int" and xs
    by (induction xs) (simp_all add: insertion_sort_def mset_insert_by)
  then show ?thesis by (simp add: sort_permutes_def)
qed

lemma compareFiles_trans:
  "compareFiles a b \<le> 0 \<Longrightarrow> compareFiles b c \<le> 0 \<Longrightarrow> compareFiles a c \<le> 0"
  by (auto simp: compareFiles_def Let_def split: if_splits)

lemma compareFiles_total: "\<not> compareFiles a b \<le> 0 \<Longrightarrow> compareFiles b a \<le> 0"
  by (auto simp: compareFiles_def Let_def split: if_splits)

lemma sorted_insert_by:
  "sorted_wrt (\<lambda>a b. compareFiles a b \<le> 0) ys \<Longrightarrow>
     sorted_wrt (\<lambda>a b. compareFiles a b \<le> 0) (insert_by compareFiles x ys)"
proof (induction ys)
  case Nil
  then show ?case by simp
next
  case (Cons y ys)
  show ?case
  proof (cases "compareFiles x y \<le> 0")
    case True
    with Cons.prems show ?thesis by (auto intro: compareFiles_trans)
  next
    case False
    then have "compareFiles y x \<le> 0" by (rule compareFiles_total)
    with False Cons show ?thesis by (auto simp: set_insert_by)
  qed
qed

lemma sorted_insertion_sort:
  "sorted_wrt (\<lambda>a b. compareFiles a b \<le> 0) (insertion_sort compareFiles xs)"
proof (induction xs)
  case Nil
  then show ?case by (simp add: insertion_sort_def)
next
  case (Cons x xs)
  then show ?case
    using sorted_insert_by [of "insertion_sort compareFiles xs" x] by (simp add: insertion_sort_def)
qed

lemma insertion_sort_respects: "sort_respects insertion_sort compareFiles"
proof -
  have "sorted_wrt (\<lambda>a b. \<not> (compareFiles b a < 0 \<and> 0 < compareFiles a b))
          (insertion_sort compareFiles xs)" for xs
    by (rule sorted_wrt_mono_rel [OF _ sorted_insertion_sort]) auto
  then show ?thesis by (simp add: sort_respects_def)
qed

subsection \<open>The selection of files\<close>

lemma limitedFiles_length: "length (limitedFiles srt tr) \<le> 20"
  by (simp add: limitedFiles_def)

lemma limitedFiles_relevant:
  assumes "sort_permutes srt" and "item \<in> set (limitedFiles srt tr)"
  shows "item \<in> set tr \<and> item_type item = Blob \<and> isCode (item_path item) \<and> \<not> isLock (item_path item)"
proof -
  from assms(1) have "set (srt compareFiles (relevantFiles tr)) = set (relevantFiles tr)"
    unfolding sort_permutes_def by (metis mset_eq_setD)
  moreover from assms(2) have "item \<in> set (srt compareFiles (relevantFiles tr))"
    by (auto simp: limitedFiles_def dest: in_set_takeD)
  ultimately show ?thesis by (auto simp: relevantFiles_def split: if_splits)
qed

lemma limitedFiles_sorted:
  assumes "sort_respects srt compareFiles"
  shows "sorted_wrt (\<lambda>a b. \<not> (compareFiles b a < 0 \<and> 0 < compareFiles a b)) (limitedFiles srt tr)"
  unfolding limitedFiles_def using assms by (auto simp: sort_respects_def intro: sorted_wrt_take)

lemma fetchFile_path: "fetchFile net info branch item = Some f \<Longrightarrow> path f = item_path item"
  by (auto simp: fetchFile_def split: sum.splits if_splits)

lemma fetched_paths:
  "map path (map the (filter (\<lambda>f. f \<noteq> None) (map (fetchFile net info branch) items))) =
     map item_path (filter (\<lambda>item. fetchFile net info branch item \<noteq> None) items)"
  by (induction items) (auto dest: fetchFile_path)

lemma fetchAfterTree_keeps_requests:
  "fetchAfterTree srt net info reqs0 r = (reqs, res) \<Longrightarrow> set reqs0 \<subseteq> set reqs"
  by (auto simp: fetchAfterTree_def Let_def split: if_splits sum.splits)

lemma fetchAfterTree_files:
  assumes "fetchAfterTree srt net info reqs0 r = (reqs, Inr files)"
  shows "\<exists>d keep. json r = Inr d \<and>
           map path files = map item_path (filter keep (limitedFiles srt (tree d)))"
proof (cases "json r")
  case (Inl e)
  with assms show ?thesis by (simp add: fetchAfterTree_def split: if_splits)
next
  case (Inr d)
  define branch where
    "branch = (if includes_str (data_url d) (js ''master'') then js ''master'' else js ''main'')"
  from assms Inr have
    "files = map the (filter (\<lambda>f. f \<noteq> None)
               (map (fetchFile net info branch) (limitedFiles srt (tree d))))"
    by (simp add: fetchAfterTree_def Let_def branch_def split: if_splits)
  then have "map path files =
      map item_path (filter (\<lambda>item. fetchFile net info branch item \<noteq> None)
                       (limitedFiles srt (tree d)))"
    by (simp only: fetched_paths)
  with Inr show ?thesis by blast
qed

lemma fetchAfterTree_selection:
  assumes "fetchAfterTree srt net info reqs0 r = (reqs, Inr files)"
    and "net req = Inr r" and "req \<in> set reqs0"
  shows "\<exists>req r d keep. req \<in> set reqs \<and> net req = Inr r \<and> json r = Inr d \<and>
           map path files = map item_path (filter keep (limitedFiles srt (tree d)))"
proof -
  from fetchAfterTree_files [OF assms(1)] obtain d keep where
    "json r = Inr d" "map path files = map item_path (filter keep (limitedFiles srt (tree d)))"
    by blast
  moreover from fetchAfterTree_keeps_requests [OF assms(1)] assms(3) have "req \<in> set reqs"
    by blast
  ultimately show ?thesis using assms(2) by blast
qed

lemma fetchRepoContents_files:
  assumes "fetchRepoContents srt net u = (reqs, Inr files)"
  shows "\<exists>req r d keep. req \<in> set reqs \<and> net req = Inr r \<and> json r = Inr d \<and>
           map path files = map item_path (filter keep (limitedFiles srt (tree d)))"
proof -
  from assms obtain info where info: "parseRepoUrl u = Some info"
    by (auto simp: fetchRepoContents_def split: option.splits)
  define treeUrl where
    "treeUrl = GITHUB_API_BASE @ js ''/'' @ owner info @ js ''/'' @ repo info
                 @ js ''/git/trees/main?recursive=1''"
  define masterUrl where
    "masterUrl = GITHUB_API_BASE @ js ''/'' @ owner info @ js ''/'' @ repo info
                   @ js ''/git/trees/master?recursive=1''"
  from assms info obtain r0 where r0: "net treeUrl = Inr r0"
    by (auto simp: fetchRepoContents_def Let_def treeUrl_def split: sum.splits)
  show ?thesis
  proof (cases "\<not> ok r0 \<and> http_status r0 = 404")
    case True
    with assms info r0 obtain r1 where r1: "net masterUrl = Inr r1"
      and "fetchAfterTree srt net info [treeUrl, masterUrl] r1 = (reqs, Inr files)"
      by (auto simp: fetchRepoContents_def Let_def treeUrl_def masterUrl_def split: sum.splits)
    from fetchAfterTree_selection [OF this(2) r1] show ?thesis by simp
  next
    case False
    with assms info r0 have "fetchAfterTree srt net info [treeUrl] r0 = (reqs, Inr files)"
      by (auto simp: fetchRepoContents_def Let_def treeUrl_def)
    from fetchAfterTree_selection [OF this r0] show ?thesis by simp
  qed
qed

text \<open>
  What holds of the files returned, with any sort that permutes: there are at most 20, and
  each passes the filter. With a sort that also respects the comparator they are in the
  order that \<open>compareFiles_order\<close> describes.
\<close>

lemma fetchRepoContents_bounded_and_filtered:
  assumes "sort_permutes srt" and "fetchRepoContents srt net u = (reqs, Inr files)"
  shows "length files \<le> 20 \<and> (\<forall>f \<in> set files. isCode (path f) \<and> \<not> isLock (path f))"
proof -
  from fetchRepoContents_files [OF assms(2)] obtain req r d keep where
    "req \<in> set reqs" "net req = Inr r" "json r = Inr d"
    and paths: "map path files = map item_path (filter keep (limitedFiles srt (tree d)))"
    by blast
  have "length files = length (map path files)" by simp
  also have "\<dots> = length (filter keep (limitedFiles srt (tree d)))" by (simp only: paths length_map)
  also have "\<dots> \<le> length (limitedFiles srt (tree d))" by (rule length_filter_le)
  also have "\<dots> \<le> 20" by (rule limitedFiles_length)
  finally have len: "length files \<le> 20" .
  have "isCode (path f) \<and> \<not> isLock (path f)" if "f \<in> set files" for f
  proof -
    from that have "path f \<in> set (map path files)" by simp
    then have "path f \<in> item_path ` set (limitedFiles srt (tree d))" unfolding paths by auto
    then show ?thesis using limitedFiles_relevant [OF assms(1)] by auto
  qed
  with len show ?thesis by blast
qed

lemma fetchRepoContents_ordered:
  assumes "sort_respects srt compareFiles" and "fetchRepoContents srt net u = (reqs, Inr files)"
  shows "sorted_wrt (\<lambda>p q. endsWith p (js ''package.json'') \<or>
                        (\<not> endsWith q (js ''package.json'') \<and>
                         length (split_on 47 p) \<le> length (split_on 47 q))) (map path files)"
proof -
  from fetchRepoContents_files [OF assms(2)] obtain req r d keep where
    "req \<in> set reqs" "net req = Inr r" "json r = Inr d"
    and paths: "map path files = map item_path (filter keep (limitedFiles srt (tree d)))"
    by blast
  have "sorted_wrt (\<lambda>a b. \<not> (compareFiles b a < 0 \<and> 0 < compareFiles a b))
          (filter keep (limitedFiles srt (tree d)))"
    by (rule sorted_wrt_filter [OF limitedFiles_sorted [OF assms(1)]])
  then have "sorted_wrt (\<lambda>a b. endsWith (item_path a) (js ''package.json'') \<or>
                        (\<not> endsWith (item_path b) (js ''package.json'') \<and>
                         length (split_on 47 (item_path a)) \<le> length (split_on 47 (item_path b))))
          (filter keep (limitedFiles srt (tree d)))"
    by (rule sorted_wrt_mono_rel [rotated]) (use compareFiles_order in blast)
  then show ?thesis
    unfolding paths sorted_wrt_map .
qed

subsection \<open>A deep file before a root file\<close>

lemma two_element_permutation:
  assumes "mset ys = mset [a, b]"
  shows "ys = [a, b] \<or> ys = [b, a]"
proof -
  from assms have "length ys = length [a, b]" by (rule mset_eq_length)
  then obtain y1 y2 where ys: "ys = [y1, y2]"
    by (cases ys; cases "tl ys") auto
  with assms show ?thesis by (auto simp: add_eq_conv_ex)
qed

lemma limitedFiles_deep:
  assumes "sort_permutes srt" and "sort_respects srt compareFiles"
  shows "limitedFiles srt deep_tree =
           [demo_item ''docs/x/y/z/mypackage.json'' Blob (Some 20), demo_item ''index.ts'' Blob (Some 40)]"
proof -
  let ?i = "demo_item ''index.ts'' Blob (Some 40)"
  let ?m = "demo_item ''docs/x/y/z/mypackage.json'' Blob (Some 20)"
  have rel: "relevantFiles deep_tree = [?i, ?m]"
    by (simp add: relevantFiles_def deep_tree_def demo_item_def isCode_def isLock_def
        codeExtensions_def endsWith_def js_def)
  have cmp: "compareFiles ?m ?i < 0" "0 < compareFiles ?i ?m"
    by (simp_all add: compareFiles_def demo_item_def endsWith_def js_def)
  from assms(1) have "mset (srt compareFiles [?i, ?m]) = mset [?i, ?m]"
    by (simp add: sort_permutes_def)
  then have "srt compareFiles [?i, ?m] = [?i, ?m] \<or> srt compareFiles [?i, ?m] = [?m, ?i]"
    by (rule two_element_permutation)
  moreover from assms(2) have
    "sorted_wrt (\<lambda>a b. \<not> (compareFiles b a < 0 \<and> 0 < compareFiles a b)) (srt compareFiles [?i, ?m])"
    by (simp add: sort_respects_def)
  ultimately have "srt compareFiles [?i, ?m] = [?m, ?i]" using cmp by auto
  then show ?thesis by (simp add: limitedFiles_def rel)
qed

text \<open>
  C10. The claim: at most 20 files are returned, each with a code extension and none of the
  excluded substrings, drawn from a sort that places a \<^verbatim>\<open>package.json\<close> manifest first
  and shallower paths before deeper ones. The cap and the filter hold
  (\<open>fetchRepoContents_bounded_and_filtered\<close>). The order does not: the comparator takes
  every path that ends in the letters \<^verbatim>\<open>package.json\<close> for the manifest and never
  compares the depth of such a path. On the repository \<^verbatim>\<open>octo/deep\<close>, whose listing is
  \<^verbatim>\<open>index.ts\<close> and \<^verbatim>\<open>docs/x/y/z/mypackage.json\<close>, every sort that permutes and
  respects the comparator returns the file five segments deep, which is no manifest, before
  the root file. (For two paths that end in \<^verbatim>\<open>package.json\<close> the comparator answers
  \<open>- 1\<close> both ways, \<open>compareFiles_inconsistent\<close>, so their order is the engine's and not
  by depth either.)
\<close>

theorem fetchRepoContents_deep_file_first:
  assumes "sort_permutes srt" and "sort_respects srt compareFiles"
  shows "fetchRepoContents srt deep_net (js ''https://github.com/octo/deep'')
           = (deep_requests, Inr deep_files)"
  by (simp add: fetchRepoContents_def fetchAfterTree_def limitedFiles_deep [OF assms]
      parseRepoUrl_def remove_trailing_slash_def split_on_def rawUrl_def fetchFile_def
      GITHUB_API_BASE_def deep_net_def demo_item_def demo_response_def deep_requests_def
      deep_files_def not_json_def js_def)

theorem fetchRepoContents_deep_file_first_witness:
  "fetchRepoContents insertion_sort deep_net (js ''https://github.com/octo/deep'')
     = (deep_requests, Inr deep_files) \<and>
   map path deep_files = [js ''docs/x/y/z/mypackage.json'', js ''index.ts'']"
  using fetchRepoContents_deep_file_first [OF insertion_sort_permutes insertion_sort_respects]
  by (simp add: deep_files_def)

end
